theory Spec2Isabelle
  imports Main "HOL-Library.Word"
begin

unbundle bit_operations_syntax

section \<open>Constants of epoll.c and of the system headers it includes\<close>

definition MAX_CONN :: nat where "MAX_CONN = 16"
definition MAX_EVENTS :: nat where "MAX_EVENTS = 32"
definition BUF_SIZE :: nat where "BUF_SIZE = 16"
definition MAX_LINE :: nat where "MAX_LINE = 256"

definition STDIN_FILENO :: int where "STDIN_FILENO = 0"
definition EXIT_SUCCESS :: int where "EXIT_SUCCESS = 0"
definition EXIT_FAILURE :: int where "EXIT_FAILURE = 1"

text \<open>The event bits of \<^verbatim>\<open><sys/epoll.h>\<close> on Linux, as 32-bit masks (\<^verbatim>\<open>uint32_t events\<close>).\<close>

definition EPOLLIN :: "32 word" where "EPOLLIN = 0x001"
definition EPOLLOUT :: "32 word" where "EPOLLOUT = 0x004"
definition EPOLLHUP :: "32 word" where "EPOLLHUP = 0x010"
definition EPOLLRDHUP :: "32 word" where "EPOLLRDHUP = 0x2000"
definition EPOLLET :: "32 word" where "EPOLLET = 0x80000000"

section \<open>Bytes, buffers and C strings\<close>

text \<open>
  A \<^verbatim>\<open>char\<close> array is a list of bytes (\<^typ>\<open>char\<close> has 256 values). A C-string function
  walks an array until it meets the terminator; when the array holds no terminator the walk
  leaves the array, which C leaves undefined: the functions below return \<open>None\<close> there.
\<close>

definition NUL :: char where "NUL = CHR 0x00"
definition NL :: char where "NL = CHR 0x0A"

text \<open>A string literal of the source: its characters followed by the terminator.\<close>

definition lit :: "string \<Rightarrow> string" where
  "lit cs = cs @ [NUL]"

text \<open>What \<^verbatim>\<open>%s\<close> prints and what \<^verbatim>\<open>strlen\<close> counts: the bytes before the first terminator.\<close>

fun c_str :: "string \<Rightarrow> string option" where
  "c_str [] = None"
| "c_str (c # cs) =
     (if c = NUL then Some [] else (case c_str cs of None \<Rightarrow> None | Some t \<Rightarrow> Some (c # t)))"

definition strlen :: "string \<Rightarrow> nat option" where
  "strlen b = map_option length (c_str b)"

text \<open>The text of a chunk of bytes, whether it holds a terminator or not: its bytes before
  the first terminator.\<close>

definition text_of :: "string \<Rightarrow> string" where
  "text_of chunk = takeWhile (\<lambda>c. c \<noteq> NUL) chunk"

text \<open>
  \<^verbatim>\<open>strcmp\<close>: compare byte by byte, stop at the first difference or at a common terminator.
  The result is zero, negative or positive; the program only tests it against zero.
\<close>

fun strcmp :: "string \<Rightarrow> string \<Rightarrow> int option" where
  "strcmp (a # as) (b # bs) =
     (if a \<noteq> b then Some (if (of_char a :: nat) < of_char b then - 1 else 1)
      else if a = NUL then Some 0
      else strcmp as bs)"
| "strcmp _ _ = None"

text \<open>\<^verbatim>\<open>bzero(buf, sizeof(buf))\<close> on an array of \<open>n\<close> bytes.\<close>

definition bzero :: "nat \<Rightarrow> string" where
  "bzero n = replicate n NUL"

text \<open>Storing \<open>data\<close> at the start of an array: the bytes behind it stay as they were.\<close>

definition store :: "string \<Rightarrow> string \<Rightarrow> string" where
  "store data b = data @ drop (length data) b"

text \<open>
  \<^verbatim>\<open>strftime(buf, maxsize, fmt, tm)\<close>, with \<open>text\<close> the formatted date or time: the text and
  its terminator are stored when they fit in \<open>maxsize\<close> bytes; otherwise the call returns 0 and the
  contents of the array are indeterminate (\<open>None\<close>).
\<close>

definition strftime :: "string \<Rightarrow> nat \<Rightarrow> string \<Rightarrow> string option" where
  "strftime b maxsize text =
     (if length text < maxsize then Some (store (lit text) b) else None)"

text \<open>Decimal digits, for \<^verbatim>\<open>inet_ntop\<close>.\<close>

fun decimal :: "nat \<Rightarrow> string" where
  "decimal n =
     (if n < 10 then [char_of (48 + n)]
      else decimal (n div 10) @ [char_of (48 + n mod 10)])"

declare decimal.simps [simp del]

type_synonym in_addr = "8 word \<times> 8 word \<times> 8 word \<times> 8 word"

record sockaddr_in =
  sin_addr :: in_addr     \<comment> \<open>the four octets, in memory (network) order\<close>
  sin_port :: "16 word"   \<comment> \<open>the port, as \<^verbatim>\<open>ntohs\<close> returns it\<close>

fun dotted :: "in_addr \<Rightarrow> string" where
  "dotted (a, b, c, d) =
     decimal (unat a) @ CHR ''.'' # decimal (unat b) @ CHR ''.'' # decimal (unat c)
       @ CHR ''.'' # decimal (unat d)"

text \<open>
  \<^verbatim>\<open>inet_ntop(AF_INET, &cli_addr.sin_addr, buf, size)\<close>: the dotted text of the address and
  its terminator are stored when they fit; otherwise the array is left alone.
\<close>

definition inet_ntop :: "in_addr \<Rightarrow> string \<Rightarrow> nat \<Rightarrow> string" where
  "inet_ntop a b sz =
     (if length (dotted a) < sz then store (lit (dotted a)) b else b)"

section \<open>The process and its environment\<close>

text \<open>
  The program is a sequence of system calls, so its state is the part of the kernel it talks
  to, what it has printed, and the local variables of \<^verbatim>\<open>server_run\<close>. The kernel part follows
  the Linux manual pages of the calls the program makes.
\<close>

record epoll_event =
  events :: "32 word"
  data_fd :: int

text \<open>
  What the kernel answers to a call of \<^verbatim>\<open>write\<close>: all bytes taken; an error (-1); or, on a
  connection the peer has closed or reset, \<^verbatim>\<open>EPIPE\<close> together with the signal
  \<^verbatim>\<open>SIGPIPE\<close>. The program installs no handler and calls plain \<^verbatim>\<open>write\<close>, so the default
  action of the signal ends the process inside the call.
\<close>

datatype write_answer = WriteOk | WriteError | WritePipe

datatype log_entry =
    Connected string "16 word"  \<comment> \<open>\<^verbatim>\<open>[+] connected with %s:%d\<close>\<close>
  | StdinLine int string        \<comment> \<open>\<^verbatim>\<open>[+] stdin (%d bytes): %s\<close>\<close>
  | DataLine int string         \<comment> \<open>\<^verbatim>\<open>[+] data (%d bytes): %s\<close>\<close>
  | Echoed string               \<comment> \<open>\<^verbatim>\<open> -> %s\<close>\<close>
  | Unexpected                  \<comment> \<open>\<^verbatim>\<open>[+] unexpected\<close>\<close>
  | ConnClosed                  \<comment> \<open>\<^verbatim>\<open>[+] connection closed\<close>\<close>
  | Perror string               \<comment> \<open>\<^verbatim>\<open>perror(...)\<close>, the message without its newline\<close>

record state =
  \<comment> \<open>kernel\<close>
  fds :: "int list"                 \<comment> \<open>the open descriptors of the process\<close>
  nonblock :: "int set"             \<comment> \<open>descriptors with \<^verbatim>\<open>O_NONBLOCK\<close>\<close>
  epoll_inst :: "int option"        \<comment> \<open>the descriptor of the epoll instance\<close>
  interest :: "int \<rightharpoonup> 32 word"   \<comment> \<open>its interest list\<close>
  listening :: "int option"         \<comment> \<open>the socket \<^verbatim>\<open>listen\<close> was called on\<close>
  backlog :: "sockaddr_in list"     \<comment> \<open>completed connections waiting for \<^verbatim>\<open>accept\<close>\<close>
  backlog_max :: nat                \<comment> \<open>the length \<^verbatim>\<open>listen\<close> gave that queue\<close>
  rx :: "int \<Rightarrow> string list"       \<comment> \<open>per descriptor, the segments waiting to be read;
                                       an empty segment is end of file\<close>
  wres :: "write_answer list"       \<comment> \<open>the answers to the next calls of \<^verbatim>\<open>write\<close>\<close>
  socket_ok :: bool                 \<comment> \<open>the answers to the start-up calls\<close>
  bind_ok :: bool
  listen_ok :: bool
  epoll_create_ok :: bool
  fmt_date :: string                \<comment> \<open>the local date as \<^verbatim>\<open>%x\<close> formats it\<close>
  fmt_time :: string                \<comment> \<open>the local time as \<^verbatim>\<open>%X\<close> formats it\<close>
  \<comment> \<open>output\<close>
  tx :: "(int \<times> string \<times> bool) list"  \<comment> \<open>the calls of \<^verbatim>\<open>write\<close>: descriptor, bytes, success\<close>
  out :: "log_entry list"                \<comment> \<open>what was printed\<close>
  \<comment> \<open>locals of \<^verbatim>\<open>server_run\<close>\<close>
  epfd :: int
  listen_sock :: int
  buf :: string
  cli_addr :: sockaddr_in

text \<open>
  How a run of the program, or of a part of it, ends: still running, terminated by
  \<^verbatim>\<open>exit(status)\<close>, terminated by a signal, suspended for ever in a blocking call, or
  undefined in C.
\<close>

datatype outcome = Running state | Exit int state | Killed state | Blocked state | UB

definition valid_fd :: "state \<Rightarrow> int \<Rightarrow> bool" where
  "valid_fd s fd \<longleftrightarrow> 0 \<le> fd \<and> fd \<in> set (fds s)"

text \<open>A new descriptor is the lowest number that is not open.\<close>

fun first_free :: "int list \<Rightarrow> int \<Rightarrow> nat \<Rightarrow> int" where
  "first_free used n 0 = n"
| "first_free used n (Suc k) = (if n \<in> set used then first_free used (n + 1) k else n)"

definition lowest_free :: "int list \<Rightarrow> int" where
  "lowest_free used = first_free used 0 (length used)"

definition logs :: "log_entry \<Rightarrow> state \<Rightarrow> state" where
  "logs e s = s\<lparr>out := out s @ [e]\<rparr>"

subsection \<open>System calls\<close>

text \<open>\<^verbatim>\<open>close(fd)\<close>: the descriptor goes, and with it its flags, its pending input and its
  entry in the interest list; closing the epoll instance drops the whole list. (For a
  descriptor that is not open there is nothing to remove.)\<close>

definition sys_close :: "int \<Rightarrow> state \<Rightarrow> state" where
  "sys_close fd s =
     s\<lparr>fds := removeAll fd (fds s),
       nonblock := nonblock s - {fd},
       rx := (rx s)(fd := []),
       interest := (if epoll_inst s = Some fd then Map.empty else (interest s)(fd := None)),
       epoll_inst := (if epoll_inst s = Some fd then None else epoll_inst s),
       listening := (if listening s = Some fd then None else listening s)\<rparr>"

text \<open>\<^verbatim>\<open>epoll_ctl(epfd, EPOLL_CTL_ADD, fd, &ev)\<close>: 0, or -1 for a bad descriptor (\<^verbatim>\<open>EBADF\<close>),
  the instance itself (\<^verbatim>\<open>EINVAL\<close>) or a descriptor already in the list (\<^verbatim>\<open>EEXIST\<close>).\<close>

definition sys_epoll_ctl_add :: "int \<Rightarrow> int \<Rightarrow> 32 word \<Rightarrow> state \<Rightarrow> int \<times> state" where
  "sys_epoll_ctl_add ep fd ev s =
     (if valid_fd s ep \<and> epoll_inst s = Some ep \<and> valid_fd s fd \<and> fd \<noteq> ep
         \<and> interest s fd = None
      then (0, s\<lparr>interest := (interest s)(fd \<mapsto> ev)\<rparr>)
      else (- 1, s))"

text \<open>\<^verbatim>\<open>epoll_ctl(epfd, EPOLL_CTL_DEL, fd, NULL)\<close>.\<close>

definition sys_epoll_ctl_del :: "int \<Rightarrow> int \<Rightarrow> state \<Rightarrow> int \<times> state" where
  "sys_epoll_ctl_del ep fd s =
     (if valid_fd s ep \<and> epoll_inst s = Some ep \<and> valid_fd s fd \<and> interest s fd \<noteq> None
      then (0, s\<lparr>interest := (interest s)(fd := None)\<rparr>)
      else (- 1, s))"

text \<open>\<^verbatim>\<open>accept(listen_sock, &cli_addr, &socklen)\<close>: the first waiting connection gets the
  lowest free descriptor and its address is stored in \<^verbatim>\<open>cli_addr\<close>; -1 when the descriptor
  is not a listening socket (bad, not listening, or the epoll instance), or when nothing
  waits on a non-blocking socket. On a blocking socket
  with nothing waiting the call does not return (\<open>None\<close>).\<close>

definition sys_accept :: "int \<Rightarrow> state \<Rightarrow> (int \<times> state) option" where
  "sys_accept ls s =
     (if \<not> valid_fd s ls \<or> listening s \<noteq> Some ls \<or> epoll_inst s = Some ls then Some (- 1, s)
      else (case backlog s of
              [] \<Rightarrow> (if ls \<in> nonblock s then Some (- 1, s) else None)
            | a # waiting \<Rightarrow>
                (let fd = lowest_free (fds s)
                 in Some (fd, s\<lparr>fds := fd # fds s, backlog := waiting, cli_addr := a\<rparr>))))"

text \<open>\<^verbatim>\<open>read(fd, buf, count)\<close>: the result and the bytes stored at the start of the array.
  -1 for a bad descriptor or when nothing waits on a non-blocking descriptor, 0 at end of
  file, otherwise at most \<open>count\<close> bytes of the first waiting segment. On a blocking
  descriptor with nothing waiting the call does not return (\<open>None\<close>).\<close>

definition sys_read :: "int \<Rightarrow> nat \<Rightarrow> state \<Rightarrow> (int \<times> string \<times> state) option" where
  "sys_read fd count s =
     (if \<not> valid_fd s fd then Some (- 1, [], s)
      else (case rx s fd of
              [] \<Rightarrow> (if fd \<in> nonblock s then Some (- 1, [], s) else None)
            | seg # segs \<Rightarrow>
                (if seg = [] then Some (0, [], s)
                 else Some (int (length (take count seg)), take count seg,
                            s\<lparr>rx := (rx s)(fd := (if drop count seg = [] then segs
                                                   else drop count seg # segs))\<rparr>))))"

text \<open>\<^verbatim>\<open>write(fd, data, len)\<close>: the call returns the number of bytes, or -1 (always so for a bad
  descriptor), or it does not return because \<^verbatim>\<open>SIGPIPE\<close> ends the process. Every call is
  recorded, with whether the bytes were taken.\<close>

datatype write_return = WriteReturns int state | WriteKills state

definition sys_write :: "int \<Rightarrow> string \<Rightarrow> state \<Rightarrow> write_return" where
  "sys_write fd data s =
     (let a = (if valid_fd s fd then (case wres s of [] \<Rightarrow> WriteOk | r # _ \<Rightarrow> r)
               else WriteError);
          s' = s\<lparr>tx := tx s @ [(fd, data, a = WriteOk)], wres := tl (wres s)\<rparr>
      in (case a of
            WriteOk \<Rightarrow> WriteReturns (int (length data)) s'
          | WriteError \<Rightarrow> WriteReturns (- 1) s'
          | WritePipe \<Rightarrow> WriteKills s'))"

text \<open>Whether the next call of write on an open descriptor succeeds, and whether it raises
  \<^verbatim>\<open>SIGPIPE\<close>.\<close>

definition next_write_ok :: "state \<Rightarrow> bool" where
  "next_write_ok s = (case wres s of [] \<Rightarrow> True | r # _ \<Rightarrow> r = WriteOk)"

definition next_write_kills :: "state \<Rightarrow> bool" where
  "next_write_kills s = (case wres s of [] \<Rightarrow> False | r # _ \<Rightarrow> r = WritePipe)"

text \<open>\<^verbatim>\<open>fcntl(fd, F_SETFL, fcntl(fd, F_GETFL, 0) | O_NONBLOCK)\<close>.\<close>

definition sys_fcntl_nonblock :: "int \<Rightarrow> state \<Rightarrow> int \<times> state" where
  "sys_fcntl_nonblock fd s =
     (if valid_fd s fd then (0, s\<lparr>nonblock := insert fd (nonblock s)\<rparr>) else (- 1, s))"

text \<open>The start-up calls: \<^verbatim>\<open>socket\<close>, \<^verbatim>\<open>bind\<close>, \<^verbatim>\<open>listen\<close>, \<^verbatim>\<open>epoll_create\<close>.\<close>

definition sys_socket :: "state \<Rightarrow> int \<times> state" where
  "sys_socket s =
     (if socket_ok s
      then (let fd = lowest_free (fds s) in (fd, s\<lparr>fds := fd # fds s\<rparr>))
      else (- 1, s))"

definition sys_bind :: "int \<Rightarrow> state \<Rightarrow> int" where
  "sys_bind fd s = (if valid_fd s fd \<and> bind_ok s then 0 else - 1)"

definition sys_listen :: "int \<Rightarrow> nat \<Rightarrow> state \<Rightarrow> int \<times> state" where
  "sys_listen fd n s =
     (if valid_fd s fd \<and> listen_ok s
      then (0, s\<lparr>listening := Some fd, backlog_max := n\<rparr>)
      else (- 1, s))"

definition sys_epoll_create :: "state \<Rightarrow> int \<times> state" where
  "sys_epoll_create s =
     (if epoll_create_ok s
      then (let fd = lowest_free (fds s)
            in (fd, s\<lparr>fds := fd # fds s, epoll_inst := Some fd, interest := Map.empty\<rparr>))
      else (- 1, s))"

section \<open>The server\<close>

subsection \<open>Helpers of epoll.c\<close>

text \<open>\<^verbatim>\<open>epoll_ctl_add\<close> (lines 77-90): a failed registration ends the process.\<close>

definition epoll_ctl_add :: "int \<Rightarrow> int \<Rightarrow> 32 word \<Rightarrow> state \<Rightarrow> outcome" where
  "epoll_ctl_add ep fd ev s =
     (case sys_epoll_ctl_add ep fd ev s of
        (r, s') \<Rightarrow>
          (if r = - 1 then Exit EXIT_FAILURE (logs (Perror ''epoll_ctl()'') s')
           else Running s'))"

text \<open>\<^verbatim>\<open>setnonblocking\<close> (lines 103-113).\<close>

definition setnonblocking :: "int \<Rightarrow> state \<Rightarrow> int \<times> state" where
  "setnonblocking sockfd s =
     (case sys_fcntl_nonblock sockfd s of
        (r, s') \<Rightarrow> (if r = - 1 then (- 1, s') else (0, s')))"

subsection \<open>Start-up (lines 131-174)\<close>

definition server_start :: "state \<Rightarrow> outcome" where
  "server_start s =
     (case sys_socket s of (ls, s1) \<Rightarrow>
      let s2 = s1\<lparr>listen_sock := ls\<rparr> in
      if ls < 0
      then Exit EXIT_FAILURE (logs (Perror ''[!] Cannot create socket file descriptor'') s2)
      else
        if sys_bind ls s2 < 0
        then Exit EXIT_FAILURE (logs (Perror ''[!] Cannot bind the socket'') s2)
        else
          (case setnonblocking ls s2 of (r3, s3) \<Rightarrow>
           if r3 < 0
           then Exit EXIT_FAILURE
                  (logs (Perror ''[!] Cannot set the socket to non-blocking mode'') s3)
           else
             (case sys_listen ls MAX_CONN s3 of (r4, s4) \<Rightarrow>
              if r4 < 0
              then Exit EXIT_FAILURE (logs (Perror ''[!] Cannot listen on the socket'') s4)
              else
                (case sys_epoll_create s4 of (ep, s5) \<Rightarrow>
                 let s6 = s5\<lparr>epfd := ep\<rparr> in
                 if ep = - 1
                 then Exit EXIT_FAILURE
                        (logs (Perror ''[!] Cannot create epoll file descriptor'') s6)
                 else
                   (case epoll_ctl_add ep ls (EPOLLIN OR EPOLLOUT OR EPOLLET) s6 of
                      Running s7 \<Rightarrow> epoll_ctl_add ep STDIN_FILENO (EPOLLIN OR EPOLLET) s7
                    | r \<Rightarrow> r)))))"

subsection \<open>The three branches of the event loop\<close>

text \<open>A new connection (lines 184-197). The result of \<^verbatim>\<open>accept\<close> is used as it comes; the
  size given to \<^verbatim>\<open>inet_ntop\<close> is \<^verbatim>\<open>sizeof(cli_addr)\<close>, 16 bytes.\<close>

definition handle_listen :: "state \<Rightarrow> outcome" where
  "handle_listen s =
     (case sys_accept (listen_sock s) s of
        None \<Rightarrow> Blocked s
      | Some (conn_sock, s1) \<Rightarrow>
          let s2 = s1\<lparr>buf := inet_ntop (sin_addr (cli_addr s1)) (buf s1) 16\<rparr> in
          (case c_str (buf s2) of
             None \<Rightarrow> UB
           | Some t \<Rightarrow>
               let s3 = logs (Connected t (sin_port (cli_addr s2))) s2 in
               (case setnonblocking conn_sock s3 of (r, s4) \<Rightarrow>
                  epoll_ctl_add (epfd s4) conn_sock
                    (EPOLLIN OR EPOLLET OR EPOLLRDHUP OR EPOLLHUP) s4)))"

text \<open>One pass through the body of a drain loop either ends the loop or goes round again.\<close>

datatype step = Next state | Stop outcome

text \<open>The body of the loop on standard input (lines 201-215).\<close>

definition stdin_iter :: "state \<Rightarrow> step" where
  "stdin_iter s =
     (let s0 = s\<lparr>buf := bzero BUF_SIZE\<rparr> in
      case sys_read STDIN_FILENO BUF_SIZE s0 of
        None \<Rightarrow> Stop (Blocked s0)
      | Some (n, data, s1) \<Rightarrow>
          if n \<le> 0 then Stop (Running s1)
          else
            let s2 = s1\<lparr>buf := store data (buf s1)\<rparr> in
            (case strcmp (buf s2) (lit (''exit'' @ [NL])) of
               None \<Rightarrow> Stop UB
             | Some r \<Rightarrow>
                 if r = 0
                 then Stop (Exit EXIT_SUCCESS
                              (sys_close (epfd s2) (sys_close (listen_sock s2) s2)))
                 else (case c_str (buf s2) of
                         None \<Rightarrow> Stop UB
                       | Some t \<Rightarrow> Next (logs (StdinLine n t) s2))))"

text \<open>The Echo function (lines 228-237): the two reserved requests.\<close>

definition echo_function :: "state \<Rightarrow> string option" where
  "echo_function s =
     (case strcmp (buf s) (lit ''%date%'') of
        None \<Rightarrow> None
      | Some r \<Rightarrow>
          if r = 0 then strftime (buf s) BUF_SIZE (fmt_date s)
          else (case strcmp (buf s) (lit ''%time%'') of
                  None \<Rightarrow> None
                | Some r' \<Rightarrow>
                    if r' = 0 then strftime (buf s) BUF_SIZE (fmt_time s)
                    else Some (buf s)))"

text \<open>The body of the loop on a connection (lines 220-245).\<close>

definition conn_iter :: "int \<Rightarrow> state \<Rightarrow> step" where
  "conn_iter fd s =
     (let s0 = s\<lparr>buf := bzero BUF_SIZE\<rparr> in
      case sys_read fd BUF_SIZE s0 of
        None \<Rightarrow> Stop (Blocked s0)
      | Some (n, data, s1) \<Rightarrow>
          if n \<le> 0 then Stop (Running s1)
          else
            let s2 = s1\<lparr>buf := store data (buf s1)\<rparr> in
            (case c_str (buf s2) of
               None \<Rightarrow> Stop UB
             | Some t \<Rightarrow>
                 let s3 = logs (DataLine n t) s2 in
                 (case echo_function s3 of
                    None \<Rightarrow> Stop UB
                  | Some b \<Rightarrow>
                      let s4 = s3\<lparr>buf := b\<rparr> in
                      (case c_str (buf s4) of
                         None \<Rightarrow> Stop UB
                       | Some reply \<Rightarrow>
                           (case sys_write fd reply s4 of
                              WriteKills s5 \<Rightarrow> Stop (Killed s5)
                            | WriteReturns w s5 \<Rightarrow>
                                let s6 = (if w < 0 then logs (Perror ''[!] write()'') s5
                                          else s5)
                                in Next (logs (Echoed reply) s6))))))"

text \<open>What is still to be read on a descriptor: every pass that goes round again reads
  at least one byte of it.\<close>

definition pending :: "state \<Rightarrow> int \<Rightarrow> nat" where
  "pending s fd = sum_list (map length (rx s fd))"

text \<open>The two drain loops: \<^verbatim>\<open>for (;;)\<close> until \<^verbatim>\<open>read\<close> returns zero or less.\<close>

function stdin_loop :: "state \<Rightarrow> outcome" where
  "stdin_loop s = (case stdin_iter s of Stop r \<Rightarrow> r | Next s' \<Rightarrow> stdin_loop s')"
  by pat_completeness auto
termination
  apply (relation "measure (\<lambda>s. pending s STDIN_FILENO)")
   apply simp
  apply (auto simp: stdin_iter_def Let_def sys_read_def pending_def logs_def BUF_SIZE_def
      split: option.splits if_splits list.splits)
  done

function conn_loop :: "int \<Rightarrow> state \<Rightarrow> outcome" where
  "conn_loop fd s = (case conn_iter fd s of Stop r \<Rightarrow> r | Next s' \<Rightarrow> conn_loop fd s')"
  by pat_completeness auto
termination
  apply (relation "measure (\<lambda>(fd, s). pending s fd)")
   apply simp
  apply (auto simp: conn_iter_def Let_def sys_read_def sys_write_def pending_def logs_def
      BUF_SIZE_def split: option.splits if_splits list.splits write_answer.splits)
  done

declare stdin_loop.simps [simp del] conn_loop.simps [simp del]

subsection \<open>One readiness event (lines 183-260)\<close>

text \<open>The check after the branches (lines 251-260).\<close>

definition closing :: "epoll_event \<Rightarrow> bool" where
  "closing ev \<longleftrightarrow> events ev AND (EPOLLRDHUP OR EPOLLHUP) \<noteq> 0"

definition teardown :: "epoll_event \<Rightarrow> state \<Rightarrow> state" where
  "teardown ev s =
     (if closing ev
      then (let s1 = logs ConnClosed s;
                s2 = snd (sys_epoll_ctl_del (epfd s1) (data_fd ev) s1)
            in sys_close (data_fd ev) s2)
      else s)"

definition branch :: "epoll_event \<Rightarrow> state \<Rightarrow> outcome" where
  "branch ev s =
     (if data_fd ev = listen_sock s then handle_listen s
      else if data_fd ev = STDIN_FILENO then stdin_loop s
      else if events ev AND EPOLLIN \<noteq> 0 then conn_loop (data_fd ev) s
      else Running (logs Unexpected s))"

definition handle_event :: "epoll_event \<Rightarrow> state \<Rightarrow> outcome" where
  "handle_event ev s =
     (case branch ev s of
        Running s' \<Rightarrow> Running (teardown ev s')
      | r \<Rightarrow> r)"

subsection \<open>The event loop (lines 177-262)\<close>

text \<open>\<^verbatim>\<open>for (i = 0; i < nfds; i++)\<close> over the events of one \<^verbatim>\<open>epoll_wait\<close>.\<close>

fun dispatch :: "epoll_event list \<Rightarrow> state \<Rightarrow> outcome" where
  "dispatch [] s = Running s"
| "dispatch (ev # evs) s =
     (case handle_event ev s of
        Running s' \<Rightarrow> dispatch evs s'
      | r \<Rightarrow> r)"

text \<open>
  What happens outside the process while it sleeps in \<^verbatim>\<open>epoll_wait\<close>: connections are
  completed, segments arrive on open descriptors, and the call returns the events that are
  ready, at most \<^verbatim>\<open>MAX_EVENTS\<close> of them.
\<close>

record wakeup =
  arrived_conns :: "sockaddr_in list"
  arrived_data :: "(int \<times> string) list"
  ready :: "epoll_event list"

definition arrive :: "wakeup \<Rightarrow> state \<Rightarrow> state" where
  "arrive w s =
     (let s1 = (if listening s = None then s
                else s\<lparr>backlog := take (backlog_max s) (backlog s @ arrived_conns w)\<rparr>)
      in fold (\<lambda>(fd, seg) t. if valid_fd t fd then t\<lparr>rx := (rx t)(fd := rx t fd @ [seg])\<rparr> else t)
           (arrived_data w) s1)"

text \<open>The outer \<^verbatim>\<open>for (;;)\<close> never ends by itself; it is run here over the wake-ups of a
  finite prefix of the process's life.\<close>

fun server_loop :: "wakeup list \<Rightarrow> state \<Rightarrow> outcome" where
  "server_loop [] s = Running s"
| "server_loop (w # ws) s =
     (case dispatch (take MAX_EVENTS (ready w)) (arrive w s) of
        Running s' \<Rightarrow> server_loop ws s'
      | r \<Rightarrow> r)"

definition server_run :: "wakeup list \<Rightarrow> state \<Rightarrow> outcome" where
  "server_run ws s =
     (case server_start s of
        Running s' \<Rightarrow> server_loop ws s'
      | r \<Rightarrow> r)"

section \<open>The client (lines 265-312)\<close>

text \<open>
  The client has one socket and its standard input, both blocking. Its state: the bytes
  still to come on standard input, the segments the server will send (an empty segment is
  the end of the stream), what it wrote to the socket and printed, and its locals.
\<close>

datatype client_log =
    Prompt              \<comment> \<open>\<^verbatim>\<open>input: \<close>\<close>
  | EchoLine string     \<comment> \<open>\<^verbatim>\<open>echo: %s\<close>\<close>
  | ClientPerror string

record client =
  c_input :: string
  c_rx :: "string list"
  c_connect_ok :: bool          \<comment> \<open>the answer to \<^verbatim>\<open>connect\<close>\<close>
  c_eagain :: bool              \<comment> \<open>whether \<^verbatim>\<open>errno\<close> is \<^verbatim>\<open>EAGAIN\<close>; no call on a blocking
                                   descriptor sets it\<close>
  c_open :: bool                \<comment> \<open>whether \<^verbatim>\<open>sockfd\<close> is open\<close>
  c_sent :: "string list"       \<comment> \<open>the calls of \<^verbatim>\<open>write\<close> on the socket\<close>
  c_out :: "client_log list"
  c_buf :: string               \<comment> \<open>\<^verbatim>\<open>char buf[MAX_LINE]\<close>\<close>

datatype client_outcome =
    Returned client       \<comment> \<open>\<^verbatim>\<open>client_run\<close> returned\<close>
  | ClientExit int client \<comment> \<open>\<^verbatim>\<open>exit(status)\<close>\<close>
  | ClientBlocked client  \<comment> \<open>suspended for ever in \<^verbatim>\<open>read\<close>\<close>
  | ClientUB              \<comment> \<open>undefined in C\<close>

text \<open>\<^verbatim>\<open>fgets(buf, size, stdin)\<close>: at most \<open>size - 1\<close> bytes, up to and with the first newline,
  then a terminator. At the end of the input nothing is read and the array is left alone.\<close>

fun get_line :: "nat \<Rightarrow> string \<Rightarrow> string \<times> string" where
  "get_line 0 xs = ([], xs)"
| "get_line (Suc k) [] = ([], [])"
| "get_line (Suc k) (x # xs) =
     (if x = NL then ([x], xs)
      else (case get_line k xs of (l, r) \<Rightarrow> (x # l, r)))"

definition fgets :: "nat \<Rightarrow> client \<Rightarrow> client" where
  "fgets sz s =
     (case get_line (sz - 1) (c_input s) of
        (l, r) \<Rightarrow>
          if l = [] then s
          else s\<lparr>c_buf := store (lit l) (c_buf s), c_input := r\<rparr>)"

text \<open>\<^verbatim>\<open>read(sockfd, buf, count)\<close> on the blocking socket; \<open>None\<close> when it never returns.\<close>

definition client_read :: "nat \<Rightarrow> client \<Rightarrow> (int \<times> string \<times> client) option" where
  "client_read count s =
     (case c_rx s of
        [] \<Rightarrow> None
      | seg # segs \<Rightarrow>
          (if seg = [] then Some (0, [], s)
           else Some (int (length (take count seg)), take count seg,
                      s\<lparr>c_rx := (if drop count seg = [] then segs
                                  else drop count seg # segs)\<rparr>)))"

text \<open>What a pass of the client's loop does up to the \<^verbatim>\<open>bzero\<close> of line 297: it leaves the
  loop, or it has sent a line and expects \<open>c\<close> bytes back.\<close>

datatype sending = Quit client | Sent int client | SendUB

definition client_send :: "client \<Rightarrow> sending" where
  "client_send s =
     (let s1 = fgets MAX_LINE (s\<lparr>c_out := c_out s @ [Prompt]\<rparr>) in
      case strlen (c_buf s1) of
        None \<Rightarrow> SendUB
      | Some l \<Rightarrow>
          let c = int l - 1 in
          if c < 0 then SendUB   \<comment> \<open>\<^verbatim>\<open>buf[-1] = 0\<close>\<close>
          else
            let s2 = s1\<lparr>c_buf := (c_buf s1)[nat c := NUL]\<rparr> in
            (case strcmp (c_buf s2) (lit ''exit'') of
               None \<Rightarrow> SendUB
             | Some r \<Rightarrow>
                 if r = 0 then Quit s2
                 else Sent c (s2\<lparr>c_sent := c_sent s2 @ [take (nat (c + 1)) (c_buf s2)],
                                 c_buf := bzero MAX_LINE\<rparr>)))"

datatype client_step = Again client | Done client_outcome

text \<open>The loop that prints the echo (lines 300-307).\<close>

function recv_loop :: "int \<Rightarrow> client \<Rightarrow> client_step" where
  "recv_loop c s =
     (if c_eagain s then Again s
      else (case client_read MAX_LINE s of
              None \<Rightarrow> Done (ClientBlocked s)
            | Some (n, data, s1) \<Rightarrow>
                if n \<le> 0 then Again s1
                else
                  (case c_str (store data (c_buf s1)) of
                     None \<Rightarrow> Done ClientUB
                   | Some t \<Rightarrow>
                       let s2 = s1\<lparr>c_out := c_out s1 @ [EchoLine t], c_buf := bzero MAX_LINE\<rparr>
                       in if c - n \<le> 0 then Again s2 else recv_loop (c - n) s2)))"
  by pat_completeness auto
termination
  by (relation "measure (\<lambda>(c, s). nat c)") auto

declare recv_loop.simps [simp del]

definition client_iter :: "client \<Rightarrow> client_step" where
  "client_iter s =
     (case client_send s of
        SendUB \<Rightarrow> Done ClientUB
      | Quit s' \<Rightarrow> Done (Returned (s'\<lparr>c_open := False\<rparr>))
      | Sent c s' \<Rightarrow> recv_loop c s')"

text \<open>
  The outer loop is left by \<^verbatim>\<open>break\<close> only. It ends on every input all the same: a pass that
  goes round again has read at least one byte, or it found the input at its end and a buffer
  that was not cleared, which happens once.
\<close>

lemma get_line_split: "get_line k xs = (l, r) \<Longrightarrow> xs = l @ r"
  by (induction k xs arbitrary: l r rule: get_line.induct) (auto split: if_splits prod.splits)

lemma client_read_input:
  "client_read count s = Some (n, data, s1) \<Longrightarrow> c_input s1 = c_input s \<and> c_buf s1 = c_buf s"
  by (auto simp: client_read_def split: list.splits if_splits)

lemma recv_loop_again:
  "recv_loop c s = Again s' \<Longrightarrow>
     c_input s' = c_input s \<and> (c_buf s = bzero MAX_LINE \<longrightarrow> c_buf s' = bzero MAX_LINE)"
proof (induction c s rule: recv_loop.induct)
  case (1 c s)
  show ?case
  proof (cases "c_eagain s")
    case True
    with "1.prems" show ?thesis by (simp add: recv_loop.simps [of c s])
  next
    case False
    show ?thesis
    proof (cases "client_read MAX_LINE s")
      case None
      with False "1.prems" show ?thesis by (simp add: recv_loop.simps [of c s])
    next
      case (Some res)
      then obtain n data s1 where rd: "client_read MAX_LINE s = Some (n, data, s1)"
        by (cases res) auto
      note keep = client_read_input [OF rd]
      show ?thesis
      proof (cases "n \<le> 0")
        case True
        with False rd "1.prems" keep show ?thesis by (simp add: recv_loop.simps [of c s])
      next
        case pos: False
        from False rd pos "1.prems" obtain t where
          t: "c_str (store data (c_buf s1)) = Some t"
          by (auto simp: recv_loop.simps [of c s] split: option.splits)
        define s2 where "s2 = s1\<lparr>c_out := c_out s1 @ [EchoLine t], c_buf := bzero MAX_LINE\<rparr>"
        show ?thesis
        proof (cases "c - n \<le> 0")
          case True
          with False rd pos t "1.prems" have "s' = s2"
            by (simp add: recv_loop.simps [of c s] s2_def)
          with keep show ?thesis by (simp add: s2_def)
        next
          case more: False
          with False rd pos t "1.prems" have "recv_loop (c - n) s2 = Again s'"
            by (simp add: recv_loop.simps [of c s] s2_def)
          from "1.IH" [OF False rd refl refl pos t s2_def more this]
          show ?thesis using keep by (simp add: s2_def)
        qed
      qed
    qed
  qed
qed


lemma c_str_bzero: "0 < n \<Longrightarrow> c_str (bzero n) = Some []"
  by (cases n) (simp_all add: bzero_def)

lemma client_send_sent:
  assumes "client_send s = Sent c s'"
  shows "c_buf s' = bzero MAX_LINE"
    and "length (c_input s') \<le> length (c_input s)"
    and "c_input s' = c_input s \<Longrightarrow> c_buf s \<noteq> bzero MAX_LINE"
proof -
  obtain l r where g: "get_line (MAX_LINE - 1) (c_input s) = (l, r)"
    by (cases "get_line (MAX_LINE - 1) (c_input s)") auto
  note sp = get_line_split [OF g]
  from assms show "c_buf s' = bzero MAX_LINE"
    by (auto simp: client_send_def Let_def split: option.splits if_splits)
  from assms g sp show "length (c_input s') \<le> length (c_input s)"
    by (auto simp: client_send_def Let_def fgets_def split: option.splits if_splits)
  assume same: "c_input s' = c_input s"
  show "c_buf s \<noteq> bzero MAX_LINE"
  proof
    assume z: "c_buf s = bzero MAX_LINE"
    from assms g sp same have "l = []"
      by (auto simp: client_send_def Let_def fgets_def split: option.splits if_splits)
    with assms g z show False
      by (auto simp: client_send_def Let_def fgets_def strlen_def c_str_bzero MAX_LINE_def
          split: option.splits if_splits)
  qed
qed

definition client_left :: "client \<Rightarrow> nat" where
  "client_left s = 2 * length (c_input s) + (if c_buf s = bzero MAX_LINE then 0 else 1)"

lemma client_iter_left: "client_iter s = Again s' \<Longrightarrow> client_left s' < client_left s"
proof -
  assume a: "client_iter s = Again s'"
  then obtain c s3 where snd: "client_send s = Sent c s3" and rl: "recv_loop c s3 = Again s'"
    by (auto simp: client_iter_def split: sending.splits)
  note f = client_send_sent [OF snd] 
  from recv_loop_again [OF rl] f(1) have s': "c_input s' = c_input s3" "c_buf s' = bzero MAX_LINE"
    by simp_all
  show ?thesis
  proof (cases "c_input s3 = c_input s")
    case True
    with f(3) s' show ?thesis by (simp add: client_left_def)
  next
    case False
    have "length (c_input s3) \<noteq> length (c_input s)"
    proof
      assume eq: "length (c_input s3) = length (c_input s)"
      obtain l r where g: "get_line (MAX_LINE - 1) (c_input s) = (l, r)"
        by (cases "get_line (MAX_LINE - 1) (c_input s)") auto
      from snd g get_line_split [OF g] eq have "c_input s3 = c_input s"
        by (auto simp: client_send_def Let_def fgets_def split: option.splits if_splits)
      with False show False by simp
    qed
    with f(2) have "length (c_input s3) < length (c_input s)" by simp
    with s' show ?thesis by (simp add: client_left_def)
  qed
qed

function client_loop :: "client \<Rightarrow> client_outcome" where
  "client_loop s = (case client_iter s of Done r \<Rightarrow> r | Again s' \<Rightarrow> client_loop s')"
  by pat_completeness auto
termination
  by (relation "measure client_left") (auto simp: client_iter_left)

declare client_loop.simps [simp del]

text \<open>\<^verbatim>\<open>client_run\<close>: connect, or give up with \<^verbatim>\<open>exit(1)\<close>; the loop closes the socket when
  it is left.\<close>

definition client_run :: "client \<Rightarrow> client_outcome" where
  "client_run s =
     (if \<not> c_connect_ok s
      then ClientExit 1 (s\<lparr>c_out := c_out s @ [ClientPerror ''cannot connect to the server'']\<rparr>)
      else client_loop (s\<lparr>c_open := True\<rparr>))"

section \<open>Example states\<close>

text \<open>A process as \<^verbatim>\<open>server_run\<close> finds it: the three standard descriptors are open, every
  start-up call will succeed, and the locals hold whatever was there.\<close>

definition boot :: state where
  "boot = \<lparr>fds = [0, 1, 2], nonblock = {}, epoll_inst = None, interest = Map.empty,
     listening = None, backlog = [], backlog_max = 0, rx = (\<lambda>_. []), wres = [],
     socket_ok = True, bind_ok = True, listen_ok = True, epoll_create_ok = True,
     fmt_date = ''10/30/26'', fmt_time = ''12:00:00'', tx = [], out = [],
     epfd = 0, listen_sock = 0, buf = bzero BUF_SIZE,
     cli_addr = \<lparr>sin_addr = (0, 0, 0, 0), sin_port = 0\<rparr>\<rparr>"

text \<open>The same process when start-up is over: descriptor 3 listens, 4 is the epoll
  instance.\<close>

definition serving :: state where
  "serving = boot\<lparr>fds := [4, 3, 0, 1, 2], nonblock := {3}, epoll_inst := Some 4,
     interest := [3 \<mapsto> EPOLLIN OR EPOLLOUT OR EPOLLET, 0 \<mapsto> EPOLLIN OR EPOLLET],
     listening := Some 3, backlog_max := MAX_CONN, epfd := 4, listen_sock := 3\<rparr>"

text \<open>A readiness event for the listening socket of \<^term>\<open>serving\<close>.\<close>

definition listen_ev :: epoll_event where
  "listen_ev = \<lparr>events = EPOLLIN, data_fd = 3\<rparr>"

text \<open>Two connections wait when the listening socket is reported ready; \<open>accepted_one\<close> is
  the state after that event: the first connection is descriptor 5, the second still waits.\<close>

definition peer1 :: sockaddr_in where
  "peer1 = \<lparr>sin_addr = (10, 0, 0, 1), sin_port = 40000\<rparr>"

definition peer2 :: sockaddr_in where
  "peer2 = \<lparr>sin_addr = (10, 0, 0, 2), sin_port = 40001\<rparr>"

definition two_waiting :: state where
  "two_waiting = serving\<lparr>backlog := [peer1, peer2]\<rparr>"

definition accepted_one :: state where
  "accepted_one = serving\<lparr>fds := [5, 4, 3, 0, 1, 2], nonblock := {5, 3},
     interest := [3 \<mapsto> EPOLLIN OR EPOLLOUT OR EPOLLET, 0 \<mapsto> EPOLLIN OR EPOLLET,
                  5 \<mapsto> EPOLLIN OR EPOLLET OR EPOLLRDHUP OR EPOLLHUP],
     backlog := [peer2], cli_addr := peer1,
     buf := ''10.0.0.1'' @ NUL # replicate 7 NUL,
     out := [Connected ''10.0.0.1'' 40000]\<rparr>"

text \<open>An event with only the hang-up bit for descriptor 5, and the state after it.\<close>

definition hangup_ev :: epoll_event where
  "hangup_ev = \<lparr>events = EPOLLHUP, data_fd = 5\<rparr>"

definition hung_up :: state where
  "hung_up = accepted_one\<lparr>fds := [4, 3, 0, 1, 2], nonblock := {3},
     interest := [3 \<mapsto> EPOLLIN OR EPOLLOUT OR EPOLLET, 0 \<mapsto> EPOLLIN OR EPOLLET],
     out := [Connected ''10.0.0.1'' 40000, Unexpected, ConnClosed]\<rparr>"

text \<open>Descriptor 5 has sent \<^verbatim>\<open>hi\<close> with its terminator, as the client does; \<open>hi_echoed\<close> is
  the state after one pass of the loop. \<open>hello_waiting\<close>: a line sent without terminator.\<close>

definition hi_waiting :: state where
  "hi_waiting = accepted_one\<lparr>rx := (rx accepted_one)(5 := [''hi'' @ [NUL]])\<rparr>"

definition hi_echoed :: state where
  "hi_echoed = accepted_one\<lparr>buf := ''hi'' @ NUL # replicate 13 NUL, tx := [(5, ''hi'', True)],
     out := [Connected ''10.0.0.1'' 40000, DataLine 3 ''hi'', Echoed ''hi'']\<rparr>"

definition hello_waiting :: state where
  "hello_waiting = accepted_one\<lparr>rx := (rx accepted_one)(5 := [''hello'' @ [NL]])\<rparr>"






text \<open>Standard input is ready: with the line \<^verbatim>\<open>exit\<close>, and with the same line followed by a
  terminator byte and one more byte. \<open>exited b\<close> is the state in which the process exits,
  with \<open>b\<close> in the buffer.\<close>

definition stdin_ev :: epoll_event where
  "stdin_ev = \<lparr>events = EPOLLIN, data_fd = 0\<rparr>"

definition exit_waiting :: state where
  "exit_waiting = serving\<lparr>rx := (rx serving)(0 := [''exit'' @ [NL]])\<rparr>"

definition exit_junk :: state where
  "exit_junk = serving\<lparr>rx := (rx serving)(0 := [''exit'' @ [NL, NUL, CHR ''x'']])\<rparr>"

definition exited :: "string \<Rightarrow> state" where
  "exited b = serving\<lparr>fds := [0, 1, 2], nonblock := {}, epoll_inst := None,
     interest := Map.empty, listening := None, buf := b\<rparr>"

text \<open>A connected client whose user types \<^verbatim>\<open>hi\<close>, or \<^verbatim>\<open>exit\<close>, and the states after the line
  has been sent, or the loop left.\<close>

definition typing_hi :: client where
  "typing_hi = \<lparr>c_input = ''hi'' @ [NL], c_rx = [], c_connect_ok = True, c_eagain = False,
     c_open = True, c_sent = [], c_out = [], c_buf = bzero MAX_LINE\<rparr>"

definition typing_exit :: client where
  "typing_exit = typing_hi\<lparr>c_input := ''exit'' @ [NL]\<rparr>"

definition hi_sent :: client where
  "hi_sent = typing_hi\<lparr>c_input := [], c_out := [Prompt], c_sent := [''hi'' @ [NUL]]\<rparr>"

definition exit_typed :: client where
  "exit_typed = typing_hi\<lparr>c_input := [], c_out := [Prompt], c_open := False,
     c_buf := ''exit'' @ NUL # NUL # replicate 250 NUL\<rparr>"

section \<open>Properties\<close>

subsection \<open>C strings and descriptors\<close>

lemma c_str_eq: "c_str b = (if NUL \<in> set b then Some (text_of b) else None)"
  by (induction b) (auto simp: text_of_def)

lemma strcmp_lit:
  "NUL \<notin> set t \<Longrightarrow> length t < length b \<Longrightarrow>
     \<exists>r. strcmp b (lit t) = Some r \<and> ((r = 0) = (text_of b = t))"
proof (induction b arbitrary: t)
  case Nil
  then show ?case by simp
next
  case (Cons x xs)
  show ?case
  proof (cases t)
    case Nil
    then show ?thesis by (simp add: lit_def text_of_def)
  next
    case (Cons y ys)
    with Cons.prems have "NUL \<notin> set ys" "length ys < length xs" "y \<noteq> NUL" by auto
    from Cons.IH [OF this(1,2)] obtain r where
      r: "strcmp xs (lit ys) = Some r" "(r = 0) = (text_of xs = ys)" by blast
    show ?thesis
    proof (cases "x = y")
      case True
      with r \<open>y \<noteq> NUL\<close> Cons show ?thesis by (simp add: lit_def text_of_def)
    next
      case False
      with Cons show ?thesis by (auto simp add: lit_def text_of_def)
    qed
  qed
qed

lemma text_of_store:
  "length chunk \<le> n \<Longrightarrow> text_of (store chunk (bzero n)) = text_of chunk"
proof (cases "NUL \<in> set chunk")
  case True
  then show ?thesis
    by (simp add: text_of_def store_def bzero_def takeWhile_append1 [of NUL])
next
  case False
  then have all: "\<forall>c\<in>set chunk. c \<noteq> NUL" by auto
  have pad: "takeWhile (\<lambda>c. c \<noteq> NUL) (replicate k NUL) = []" for k
    by (cases k) simp_all
  have "takeWhile (\<lambda>c. c \<noteq> NUL) chunk = chunk"
    using all by (simp add: takeWhile_eq_all_conv)
  then have tw: "text_of chunk = chunk"
    by (simp only: text_of_def)
  have "text_of (store chunk (bzero n))
      = chunk @ takeWhile (\<lambda>c. c \<noteq> NUL) (replicate (n - length chunk) NUL)"
    using all by (simp add: text_of_def store_def bzero_def takeWhile_append2)
  also have "\<dots> = chunk" by (simp only: pad append_Nil2)
  finally show ?thesis by (simp only: tw)
qed

lemma first_free_fresh:
  "card {x \<in> set used. n \<le> x} \<le> k \<Longrightarrow> first_free used n k \<notin> set used"
proof (induction k arbitrary: n)
  case 0
  then have "{x \<in> set used. n \<le> x} = {}" by simp
  then show ?case by auto
next
  case (Suc k)
  show ?case
  proof (cases "n \<in> set used")
    case True
    have "n \<in> {x \<in> set used. n \<le> x}" "n \<notin> {x \<in> set used. n + 1 \<le> x}"
      using True by auto
    then have "{x \<in> set used. n + 1 \<le> x} \<subset> {x \<in> set used. n \<le> x}"
      by fastforce
    then have "card {x \<in> set used. n + 1 \<le> x} < card {x \<in> set used. n \<le> x}"
      by (intro psubset_card_mono) auto
    with Suc.prems have "card {x \<in> set used. n + 1 \<le> x} \<le> k" by simp
    from Suc.IH [OF this] True show ?thesis by simp
  next
    case False
    then show ?thesis by simp
  qed
qed

lemma lowest_free_fresh: "lowest_free used \<notin> set used"
  unfolding lowest_free_def
  by (rule first_free_fresh) (metis (no_types, lifting) card_length card_mono List.finite_set le_trans mem_Collect_eq subsetI)

lemma first_free_ge: "n \<le> first_free used n k"
proof (induction k arbitrary: n)
  case 0
  then show ?case by simp
next
  case (Suc k)
  have "n + 1 \<le> first_free used (n + 1) k" by (rule Suc.IH)
  then show ?case by simp
qed

lemma server_start_boot: "server_start boot = Running serving"
  by (simp add: server_start_def boot_def serving_def sys_socket_def lowest_free_def sys_bind_def valid_fd_def
   setnonblocking_def sys_fcntl_nonblock_def sys_listen_def sys_epoll_create_def epoll_ctl_add_def sys_epoll_ctl_add_def
   STDIN_FILENO_def Let_def)

lemma decimal_length: "0 < k \<Longrightarrow> n < 10 ^ k \<Longrightarrow> length (decimal n) \<le> k"
proof (induction k arbitrary: n)
  case 0
  then show ?case by simp
next
  case (Suc k)
  show ?case
  proof (cases "n < 10")
    case True
    then show ?thesis by (simp add: decimal.simps [of n])
  next
    case False
    with Suc.prems have "0 < k" by (cases k) auto
    moreover from Suc.prems have "n div 10 < 10 ^ k" by (simp add: less_mult_imp_div_less mult.commute)
    ultimately have "length (decimal (n div 10)) \<le> k" by (rule Suc.IH)
    with False show ?thesis by (simp add: decimal.simps [of n])
  qed
qed

lemma digit_not_NUL: "d < 10 \<Longrightarrow> char_of (48 + d :: nat) \<noteq> NUL"
proof
  assume d: "d < 10" and "char_of (48 + d) = NUL"
  then have "(of_char (char_of (48 + d) :: char) :: nat) = of_char NUL" by simp
  with d show False by (simp add: NUL_def)
qed

lemma decimal_no_NUL: "NUL \<notin> set (decimal n)"
proof (induction n rule: decimal.induct)
  case (1 n)
  show ?case
  proof (cases "n < 10")
    case True
    then show ?thesis using digit_not_NUL [of n] by (simp add: decimal.simps [of n])
  next
    case False
    with 1 show ?thesis
      using digit_not_NUL [of "n mod 10"] by (simp add: decimal.simps [of n])
  qed
qed

lemma dotted_length: "length (dotted a) < 16"
proof -
  have "length (decimal (unat x)) \<le> 3" for x :: "8 word"
  proof -
    have "unat x < 2 ^ 8" using unsigned_less [of x, where ?'a = nat] by simp
    then have "unat x < 10 ^ 3" by simp
    then show ?thesis by (intro decimal_length) simp_all
  qed
  note d = this
  obtain p q r t where a: "a = (p, q, r, t)" by (cases a) auto
  show ?thesis using d [of p] d [of q] d [of r] d [of t] by (simp add: a)
qed

lemma dotted_no_NUL: "NUL \<notin> set (dotted a)"
proof -
  have "CHR ''.'' \<noteq> NUL" by (simp add: NUL_def)
  then show ?thesis by (cases a) (simp add: decimal_no_NUL)
qed

lemma c_str_terminated: "NUL \<notin> set t \<Longrightarrow> c_str (t @ NUL # rest) = Some t"
  by (induction t) auto

lemma c_str_store_lit: "NUL \<notin> set t \<Longrightarrow> c_str (store (lit t) b) = Some t"
  by (simp add: store_def lit_def c_str_terminated)

subsection \<open>Failing calls\<close>

lemma setnonblocking_bad: "setnonblocking (- 1) s = (- 1, s)"
  by (simp add: setnonblocking_def sys_fcntl_nonblock_def valid_fd_def)

lemma sys_epoll_ctl_add_bad: "sys_epoll_ctl_add ep (- 1) e s = (- 1, s)"
  by (simp add: sys_epoll_ctl_add_def valid_fd_def)

lemma sys_accept_failed: "sys_accept ls s = Some (- 1, s1) \<Longrightarrow> s1 = s"
  using first_free_ge [of 0 "fds s" "length (fds s)"]
  by (auto simp: sys_accept_def lowest_free_def Let_def split: if_splits list.splits)

lemma c_str_inet_ntop: "c_str (inet_ntop a b 16) = Some (dotted a)"
  by (simp add: inet_ntop_def dotted_length c_str_store_lit dotted_no_NUL)

lemma dotted_zero: "dotted (0,0,0,0) = ''0.0.0.0''"
  by code_simp

subsection \<open>Events on the example states\<close>

lemma dotted_peer1: "dotted (10, 0, 0, 1) = ''10.0.0.1''"
  by code_simp

lemma lowest_free_fresh_valid: "valid_fd s fd \<Longrightarrow> lowest_free (fds s) \<noteq> fd"
  using lowest_free_fresh [of "fds s"] by (auto simp: valid_fd_def)

lemma lowest_free_nonneg: "0 \<le> lowest_free used"
  unfolding lowest_free_def by (rule first_free_ge)

lemma handle_two_waiting: "handle_event listen_ev two_waiting = Running accepted_one"
  by (simp add: handle_event_def branch_def handle_listen_def sys_accept_def two_waiting_def
      accepted_one_def serving_def boot_def listen_ev_def valid_fd_def lowest_free_def Let_def
      peer1_def inet_ntop_def dotted_peer1 store_def lit_def bzero_def BUF_SIZE_def
      c_str_terminated NUL_def logs_def setnonblocking_def sys_fcntl_nonblock_def
      epoll_ctl_add_def sys_epoll_ctl_add_def teardown_def closing_def
      EPOLLIN_def EPOLLRDHUP_def EPOLLHUP_def del: dotted.simps)

lemma handle_hangup: "handle_event hangup_ev accepted_one = Running hung_up"
  apply (simp add: handle_event_def branch_def hangup_ev_def accepted_one_def hung_up_def serving_def boot_def
    STDIN_FILENO_def EPOLLIN_def EPOLLHUP_def EPOLLRDHUP_def logs_def teardown_def closing_def Let_def
    sys_epoll_ctl_del_def valid_fd_def sys_close_def)
  apply (auto simp: fun_eq_iff)
  done

subsection \<open>Reading a chunk\<close>

lemma sys_read_some:
  assumes "sys_read fd count s = Some (n, data, s1)" and "0 < n"
  shows "n = int (length data)" and "data \<noteq> []" and "length data \<le> count"
    and "s1 = s\<lparr>rx := rx s1\<rparr>" and "valid_fd s fd"
  using assms by (auto simp: sys_read_def split: if_splits list.splits)

lemma length_store: "length chunk \<le> n \<Longrightarrow> length (store chunk (bzero n)) = n"
  by (simp add: store_def bzero_def)

lemma NUL_in_store:
  "length chunk \<le> n \<Longrightarrow> NUL \<in> set (store chunk (bzero n)) \<longleftrightarrow> NUL \<in> set chunk \<or> length chunk < n"
  by (auto simp: store_def bzero_def)

lemma c_str_store:
  "length chunk \<le> n \<Longrightarrow>
   c_str (store chunk (bzero n)) =
     (if NUL \<in> set chunk \<or> length chunk < n then Some (text_of chunk) else None)"
  by (simp add: c_str_eq NUL_in_store text_of_store)

lemma echo_function_text:
  assumes "6 < length (buf s)"
  shows "echo_function s =
     (if text_of (buf s) = ''%date%'' then strftime (buf s) BUF_SIZE (fmt_date s)
      else if text_of (buf s) = ''%time%'' then strftime (buf s) BUF_SIZE (fmt_time s)
      else Some (buf s))"
proof -
  have d: "NUL \<notin> set ''%date%''" "length ''%date%'' < length (buf s)"
    and t: "NUL \<notin> set ''%time%''" "length ''%time%'' < length (buf s)"
    using assms by (simp_all add: NUL_def)
  from strcmp_lit [OF d] obtain r where
    r: "strcmp (buf s) (lit ''%date%'') = Some r" "(r = 0) = (text_of (buf s) = ''%date%'')"
    by blast
  from strcmp_lit [OF t] obtain r' where
    r': "strcmp (buf s) (lit ''%time%'') = Some r'" "(r' = 0) = (text_of (buf s) = ''%time%'')"
    by blast
  show ?thesis
    unfolding echo_function_def using r r' by (simp del: strcmp.simps)
qed

subsection \<open>One pass of the loop on a connection\<close>

lemma sys_write_valid:
  assumes "valid_fd s fd"
  shows "sys_write fd d s =
     (if next_write_kills s
      then WriteKills (s\<lparr>tx := tx s @ [(fd, d, False)], wres := tl (wres s)\<rparr>)
      else WriteReturns (if next_write_ok s then int (length d) else - 1)
             (s\<lparr>tx := tx s @ [(fd, d, next_write_ok s)], wres := tl (wres s)\<rparr>))"
  using assms
  by (auto simp: sys_write_def Let_def next_write_ok_def next_write_kills_def
      split: list.splits write_answer.splits)

lemma kills_not_ok: "next_write_kills s \<Longrightarrow> \<not> next_write_ok s"
  by (auto simp: next_write_ok_def next_write_kills_def split: list.splits)

lemma text_of_terminated_any: "text_of (t @ NUL # rest) = text_of t"
  by (induction t) (auto simp: text_of_def)

lemma c_str_store_lit_text: "c_str (store (lit t) b) = Some (text_of t)"
  by (simp add: c_str_eq store_def lit_def text_of_terminated_any)

lemma conn_iter_read:
  assumes rd: "sys_read fd BUF_SIZE (s\<lparr>buf := bzero BUF_SIZE\<rparr>) = Some (n, chunk, s1)"
    and n: "0 < n"
    and defined: "NUL \<in> set chunk \<or> length chunk < BUF_SIZE"
    and fit: "text_of chunk = ''%date%'' \<Longrightarrow> length (fmt_date s) < BUF_SIZE"
      "text_of chunk = ''%time%'' \<Longrightarrow> length (fmt_time s) < BUF_SIZE"
    and b: "b = (if text_of chunk = ''%date%''
                   then store (lit (fmt_date s)) (store chunk (bzero BUF_SIZE))
                 else if text_of chunk = ''%time%''
                   then store (lit (fmt_time s)) (store chunk (bzero BUF_SIZE))
                 else store chunk (bzero BUF_SIZE))"
    and reply: "reply = (if text_of chunk = ''%date%'' then text_of (fmt_date s)
                         else if text_of chunk = ''%time%'' then text_of (fmt_time s)
                         else text_of chunk)"
  shows "conn_iter fd s =
     (if next_write_kills s
      then Stop (Killed (s\<lparr>rx := rx s1, buf := b, wres := tl (wres s),
                           tx := tx s @ [(fd, reply, False)],
                           out := out s @ [DataLine n (text_of chunk)]\<rparr>))
      else Next (s\<lparr>rx := rx s1, buf := b, wres := tl (wres s),
                   tx := tx s @ [(fd, reply, next_write_ok s)],
                   out := out s @ (if next_write_ok s
                                   then [DataLine n (text_of chunk), Echoed reply]
                                   else [DataLine n (text_of chunk), Perror ''[!] write()'',
                                         Echoed reply])\<rparr>))"
proof -
  note r = sys_read_some [OF rd n]
  define R where "R = rx s1"
  have len: "length chunk \<le> BUF_SIZE" by (rule r(3))
  have s1: "s1 = s\<lparr>buf := bzero BUF_SIZE, rx := R\<rparr>" using r(4) by (simp add: R_def)
  have v: "valid_fd s fd" using r(5) by (simp add: valid_fd_def)
  define s3 where
    "s3 = s\<lparr>buf := store chunk (bzero BUF_SIZE), rx := R,
            out := out s @ [DataLine n (text_of chunk)]\<rparr>"
  have six: "6 < length (buf s3)"
    using len by (simp add: s3_def length_store BUF_SIZE_def)
  have cs: "c_str (store chunk (bzero BUF_SIZE)) = Some (text_of chunk)"
    using len defined by (simp add: c_str_store)
  have ef: "echo_function s3 = Some b"
    unfolding echo_function_text [OF six] b using fit
    by (simp add: s3_def text_of_store len strftime_def)
  have cb: "c_str b = Some reply"
    unfolding b reply by (simp add: c_str_store_lit_text cs)
  have v4: "valid_fd (s3\<lparr>buf := b\<rparr>) fd" using v by (simp add: valid_fd_def s3_def)
  have pass: "conn_iter fd s =
      (case sys_write fd reply (s3\<lparr>buf := b\<rparr>) of
         WriteKills s5 \<Rightarrow> Stop (Killed s5)
       | WriteReturns w s5 \<Rightarrow>
           Next (logs (Echoed reply)
                  (if w < 0 then logs (Perror ''[!] write()'') s5 else s5)))"
  proof -
    have "logs (DataLine n (text_of chunk)) (s1\<lparr>buf := store chunk (buf s1)\<rparr>) = s3"
      unfolding s1 by (simp add: logs_def s3_def)
    then show ?thesis
      unfolding conn_iter_def Let_def rd using n
      by (simp add: cs ef cb s1 del: c_str.simps)
  qed
  have "conn_iter fd s =
     (if next_write_kills s
      then Stop (Killed (s\<lparr>rx := R, buf := b, wres := tl (wres s),
                           tx := tx s @ [(fd, reply, False)],
                           out := out s @ [DataLine n (text_of chunk)]\<rparr>))
      else Next (s\<lparr>rx := R, buf := b, wres := tl (wres s),
                   tx := tx s @ [(fd, reply, next_write_ok s)],
                   out := out s @ (if next_write_ok s
                                   then [DataLine n (text_of chunk), Echoed reply]
                                   else [DataLine n (text_of chunk), Perror ''[!] write()'',
                                         Echoed reply])\<rparr>))"
    unfolding pass sys_write_valid [OF v4]
    by (simp add: s3_def logs_def next_write_ok_def next_write_kills_def)
  then show ?thesis by (simp only: R_def)
qed


lemma conn_iter_plain:
  assumes rd: "sys_read fd BUF_SIZE (s\<lparr>buf := bzero BUF_SIZE\<rparr>) = Some (n, chunk, s1)"
    and n: "0 < n"
    and defined: "NUL \<in> set chunk \<or> length chunk < BUF_SIZE"
    and plain: "text_of chunk \<noteq> ''%date%''" "text_of chunk \<noteq> ''%time%''"
  shows "conn_iter fd s =
     (if next_write_kills s
      then Stop (Killed (s\<lparr>rx := rx s1, buf := store chunk (bzero BUF_SIZE),
                           wres := tl (wres s),
                           tx := tx s @ [(fd, text_of chunk, False)],
                           out := out s @ [DataLine n (text_of chunk)]\<rparr>))
      else Next (s\<lparr>rx := rx s1, buf := store chunk (bzero BUF_SIZE), wres := tl (wres s),
                   tx := tx s @ [(fd, text_of chunk, next_write_ok s)],
                   out := out s @ (if next_write_ok s
                                   then [DataLine n (text_of chunk), Echoed (text_of chunk)]
                                   else [DataLine n (text_of chunk), Perror ''[!] write()'',
                                         Echoed (text_of chunk)])\<rparr>))"
  using plain by (intro conn_iter_read [OF rd n defined]) simp_all

lemma read_hi:
  "sys_read 5 BUF_SIZE (hi_waiting\<lparr>buf := bzero BUF_SIZE\<rparr>)
     = Some (3, ''hi'' @ [NUL], accepted_one\<lparr>buf := bzero BUF_SIZE\<rparr>)"
  by (auto simp: sys_read_def hi_waiting_def accepted_one_def serving_def boot_def valid_fd_def
      BUF_SIZE_def fun_eq_iff)

lemma conn_iter_hi: "conn_iter 5 hi_waiting = Next hi_echoed"
proof -
  have t: "text_of (''hi'' @ [NUL]) = ''hi''" by (simp add: text_of_def NUL_def)
  have "NUL \<in> set (''hi'' @ [NUL]) \<or> length (''hi'' @ [NUL]) < BUF_SIZE" by simp
  from conn_iter_plain [OF read_hi _ this] show ?thesis
    unfolding t
    by (simp add: hi_echoed_def hi_waiting_def accepted_one_def serving_def boot_def
        next_write_ok_def next_write_kills_def store_def bzero_def BUF_SIZE_def)
qed

subsection \<open>The loop on a connection\<close>


lemma sys_read_keeps:
  assumes "sys_read fd count s = Some (n, d, s1)"
  shows "fds s1 = fds s" and "interest s1 = interest s"
  using assms by (auto simp: sys_read_def split: if_splits list.splits)



lemma conn_iter_stop:
  assumes "conn_iter fd s = Stop r"
  shows "r \<noteq> Exit st z" and "r = Running t \<Longrightarrow> fds t = fds s \<and> interest t = interest s"
  using assms
  by (auto simp: conn_iter_def Let_def split: option.splits if_splits write_return.splits
      dest: sys_read_keeps)

lemma conn_loop_never_exits: "conn_loop fd s \<noteq> Exit st z"
proof (induction fd s rule: conn_loop.induct)
  case (1 fd s)
  show ?case
  proof (cases "conn_iter fd s")
    case (Next s')
    with 1 show ?thesis by (simp add: conn_loop.simps [of fd s])
  next
    case (Stop r)
    with conn_iter_stop(1) [OF Stop] show ?thesis by (simp add: conn_loop.simps [of fd s])
  qed
qed








subsection \<open>The loop on standard input\<close>

lemma stdin_iter_read:
  assumes rd: "sys_read STDIN_FILENO BUF_SIZE (s\<lparr>buf := bzero BUF_SIZE\<rparr>) = Some (n, chunk, s1)"
    and n: "0 < n"
  shows "stdin_iter s =
     (if text_of chunk = ''exit'' @ [NL]
      then Stop (Exit EXIT_SUCCESS
                  (sys_close (epfd s) (sys_close (listen_sock s)
                     (s\<lparr>rx := rx s1, buf := store chunk (bzero BUF_SIZE)\<rparr>))))
      else if NUL \<in> set chunk \<or> length chunk < BUF_SIZE
      then Next (s\<lparr>rx := rx s1, buf := store chunk (bzero BUF_SIZE),
                   out := out s @ [StdinLine n (text_of chunk)]\<rparr>)
      else Stop UB)"
proof -
  note r = sys_read_some [OF rd n]
  define R where "R = rx s1"
  have len: "length chunk \<le> BUF_SIZE" by (rule r(3))
  have s1: "s1 = s\<lparr>buf := bzero BUF_SIZE, rx := R\<rparr>" using r(4) by (simp add: R_def)
  have e: "NUL \<notin> set (''exit'' @ [NL])"
    "length (''exit'' @ [NL]) < length (store chunk (bzero BUF_SIZE))"
    using len by (simp_all add: length_store BUF_SIZE_def NUL_def NL_def)
  from strcmp_lit [OF e] obtain c where
    c: "strcmp (store chunk (bzero BUF_SIZE)) (lit (''exit'' @ [NL])) = Some c"
       "(c = 0) = (text_of chunk = ''exit'' @ [NL])"
    by (auto simp: text_of_store len)
  have "stdin_iter s =
     (if text_of chunk = ''exit'' @ [NL]
      then Stop (Exit EXIT_SUCCESS
                  (sys_close (epfd s) (sys_close (listen_sock s)
                     (s\<lparr>rx := R, buf := store chunk (bzero BUF_SIZE)\<rparr>))))
      else if NUL \<in> set chunk \<or> length chunk < BUF_SIZE
      then Next (s\<lparr>rx := R, buf := store chunk (bzero BUF_SIZE),
                   out := out s @ [StdinLine n (text_of chunk)]\<rparr>)
      else Stop UB)"
    unfolding stdin_iter_def Let_def rd using n c unfolding s1
    by (simp add: c_str_store len logs_def del: strcmp.simps)
  then show ?thesis by (simp only: R_def)
qed

lemma read_exit:
  "sys_read STDIN_FILENO BUF_SIZE (exit_waiting\<lparr>buf := bzero BUF_SIZE\<rparr>)
     = Some (5, ''exit'' @ [NL], serving\<lparr>buf := bzero BUF_SIZE\<rparr>)"
  by (auto simp: sys_read_def exit_waiting_def serving_def boot_def valid_fd_def
      BUF_SIZE_def STDIN_FILENO_def NL_def fun_eq_iff)

lemma read_exit_junk:
  "sys_read STDIN_FILENO BUF_SIZE (exit_junk\<lparr>buf := bzero BUF_SIZE\<rparr>)
     = Some (7, ''exit'' @ [NL, NUL, CHR ''x''], serving\<lparr>buf := bzero BUF_SIZE\<rparr>)"
  by (auto simp: sys_read_def exit_junk_def serving_def boot_def valid_fd_def
      BUF_SIZE_def STDIN_FILENO_def NL_def fun_eq_iff)

lemma closed_down:
  "sys_close (epfd s) (sys_close (listen_sock s) (s\<lparr>rx := rx serving, buf := b\<rparr>)) = exited b"
  if "s = exit_waiting \<or> s = exit_junk"
  using that
  by (auto simp: sys_close_def exited_def exit_waiting_def exit_junk_def serving_def boot_def
      fun_eq_iff)

subsection \<open>A line typed at the client\<close>

lemma get_line_newline:
  "NL \<notin> set l \<Longrightarrow> length l < k \<Longrightarrow> get_line k (l @ NL # rest) = (l @ [NL], rest)"
proof (induction l arbitrary: k)
  case Nil
  then show ?case by (cases k) auto
next
  case (Cons x xs)
  then obtain k' where k: "k = Suc k'" by (cases k) auto
  with Cons show ?case by auto
qed

lemma text_of_terminated: "NUL \<notin> set t \<Longrightarrow> text_of (t @ NUL # rest) = t"
  by (auto simp: text_of_def takeWhile_tail)

lemma client_send_line:
  assumes inp: "c_input s = l @ NL # rest"
    and l: "NL \<notin> set l" "NUL \<notin> set l" "length l \<le> 254"
    and b: "length (c_buf s) = MAX_LINE"
  shows "client_send s =
     (if l = ''exit''
      then Quit (s\<lparr>c_out := c_out s @ [Prompt], c_input := rest,
                   c_buf := l @ NUL # NUL # drop (length l + 2) (c_buf s)\<rparr>)
      else Sent (int (length l))
             (s\<lparr>c_out := c_out s @ [Prompt], c_input := rest,
                c_sent := c_sent s @ [l @ [NUL]], c_buf := bzero MAX_LINE\<rparr>))"
proof -
  define tl2 where "tl2 = drop (length l + 2) (c_buf s)"
  have g: "get_line (MAX_LINE - 1) (c_input (s\<lparr>c_out := c_out s @ [Prompt]\<rparr>)) = (l @ [NL], rest)"
    using l get_line_newline [of l "MAX_LINE - 1" rest] by (simp add: inp MAX_LINE_def)
  have b1: "store (lit (l @ [NL])) (c_buf s) = l @ NL # NUL # tl2"
    by (simp add: store_def lit_def tl2_def)
  have f: "fgets MAX_LINE (s\<lparr>c_out := c_out s @ [Prompt]\<rparr>)
      = s\<lparr>c_out := c_out s @ [Prompt], c_buf := l @ NL # NUL # tl2, c_input := rest\<rparr>"
    unfolding fgets_def g using b1 by simp
  have nn: "NUL \<notin> set (l @ [NL])" using l by (simp add: NUL_def NL_def)
  have len: "strlen (l @ NL # NUL # tl2) = Some (Suc (length l))"
    using c_str_terminated [OF nn, of tl2] by (simp add: strlen_def)
  have b2: "(l @ NL # NUL # tl2)[length l := NUL] = l @ NUL # NUL # tl2"
    by (simp add: list_update_append)
  have e: "NUL \<notin> set ''exit''" "length ''exit'' < length (l @ NUL # NUL # tl2)"
    using l b by (simp_all add: NUL_def tl2_def MAX_LINE_def)
  from strcmp_lit [OF e] obtain r where
    r: "strcmp (l @ NUL # NUL # tl2) (lit ''exit'') = Some r" "(r = 0) = (l = ''exit'')"
    by (auto simp: text_of_terminated [OF l(2)])
  have tk: "take (Suc (length l)) (l @ NUL # NUL # tl2) = l @ [NUL]" by simp
  have "client_send s =
     (if r = 0
      then Quit (s\<lparr>c_out := c_out s @ [Prompt], c_input := rest,
                   c_buf := l @ NUL # NUL # tl2\<rparr>)
      else Sent (int (length l))
             (s\<lparr>c_out := c_out s @ [Prompt], c_input := rest,
                c_sent := c_sent s @ [l @ [NUL]], c_buf := bzero MAX_LINE\<rparr>))"
    unfolding client_send_def Let_def f
    by (simp add: len b2 r(1) tk nat_add_distrib del: strcmp.simps)
  then show ?thesis
    unfolding r(2) tl2_def .
qed


lemma typed_hi:
  "c_input typing_hi = ''hi'' @ NL # []" "NL \<notin> set ''hi''" "NUL \<notin> set ''hi''"
  "length ''hi'' \<le> 254" "length (c_buf typing_hi) = MAX_LINE"
  by (simp_all add: typing_hi_def bzero_def NL_def NUL_def)

lemma typed_exit:
  "c_input typing_exit = ''exit'' @ NL # []" "NL \<notin> set ''exit''" "NUL \<notin> set ''exit''"
  "length ''exit'' \<le> 254" "length (c_buf typing_exit) = MAX_LINE"
  by (simp_all add: typing_exit_def typing_hi_def bzero_def NL_def NUL_def)

lemma client_send_hi: "client_send typing_hi = Sent 2 hi_sent"
  using client_send_line [OF typed_hi]
  by (simp add: hi_sent_def typing_hi_def)

lemma client_send_exit: "client_send typing_exit = Quit (exit_typed\<lparr>c_open := True\<rparr>)"
  using client_send_line [OF typed_exit]
  by (simp add: exit_typed_def typing_exit_def typing_hi_def bzero_def MAX_LINE_def)

section \<open>The claims\<close>

text \<open>
  C1 (what the code does). An event for the listening socket calls \<^verbatim>\<open>accept\<close> once: when
  two connections wait, the first becomes the lowest free descriptor, registered for
  \<^verbatim>\<open>EPOLLIN | EPOLLET | EPOLLRDHUP | EPOLLHUP\<close>, and the second is still waiting when the
  event has been handled. There is no loop until \<^verbatim>\<open>accept\<close> would block.
\<close>

theorem listen_event_accepts_once:
  assumes "data_fd ev = listen_sock s"
    and "backlog s = a # b # waiting"
    and "handle_event ev s = Running s'"
  shows "backlog s' = b # waiting
    \<and> interest s' (lowest_free (fds s)) = Some (EPOLLIN OR EPOLLET OR EPOLLRDHUP OR EPOLLHUP)"
proof -
  from assms obtain t where t: "handle_listen s = Running t" and s': "s' = teardown ev t"
    by (auto simp: handle_event_def branch_def split: outcome.splits)
  from t assms(2) have v: "valid_fd s (listen_sock s)"
    by (auto simp: handle_listen_def sys_accept_def Let_def c_str_inet_ntop
        setnonblocking_bad epoll_ctl_add_def sys_epoll_ctl_add_bad split: if_splits)
  then have ne: "lowest_free (fds s) \<noteq> listen_sock s" by (rule lowest_free_fresh_valid)
  from t assms(2) v have "backlog t = b # waiting
    \<and> interest t (lowest_free (fds s)) = Some (EPOLLIN OR EPOLLET OR EPOLLRDHUP OR EPOLLHUP)
    \<and> epoll_inst t \<noteq> Some (listen_sock s)"
    by (auto simp: handle_listen_def sys_accept_def Let_def c_str_inet_ntop logs_def
        setnonblocking_def sys_fcntl_nonblock_def epoll_ctl_add_def sys_epoll_ctl_add_def
        valid_fd_def split: if_splits)
  with ne assms(1) show ?thesis
    by (auto simp: s' teardown_def Let_def sys_close_def sys_epoll_ctl_del_def logs_def)
qed

text \<open>With \<^term>\<open>peer1\<close> and \<^term>\<open>peer2\<close> waiting, \<^term>\<open>peer2\<close> is left in the queue.\<close>

theorem listen_event_accepts_once_witness:
  "data_fd listen_ev = listen_sock two_waiting
   \<and> backlog two_waiting = [peer1, peer2]
   \<and> handle_event listen_ev two_waiting = Running accepted_one
   \<and> backlog accepted_one = [peer2]
   \<and> interest accepted_one (lowest_free (fds two_waiting))
       = Some (EPOLLIN OR EPOLLET OR EPOLLRDHUP OR EPOLLHUP)"
proof -
  have a: "data_fd listen_ev = listen_sock two_waiting"
    by (simp add: listen_ev_def two_waiting_def serving_def)
  have b: "backlog two_waiting = peer1 # peer2 # []"
    by (simp add: two_waiting_def)
  from listen_event_accepts_once [OF a b handle_two_waiting] a b handle_two_waiting
  show ?thesis by simp
qed

text \<open>
  C2 (as amended). When \<^verbatim>\<open>read\<close> on a connection returns a chunk of at most 15 bytes that
  holds no terminator byte and is not one of the two reserved requests, the pass of the loop
  calls \<^verbatim>\<open>write\<close> once on that connection, with exactly the bytes of the chunk. The pass
  then goes round again, unless that call raised \<^verbatim>\<open>SIGPIPE\<close> and the process ended in it.
\<close>

theorem echo_identity:
  assumes "sys_read fd BUF_SIZE (s\<lparr>buf := bzero BUF_SIZE\<rparr>) = Some (n, chunk, s1)"
    and "0 < n"
    and "length chunk \<le> 15"
    and "NUL \<notin> set chunk"
    and "chunk \<noteq> ''%date%''" and "chunk \<noteq> ''%time%''"
  shows "\<exists>s'. conn_iter fd s = (if next_write_kills s then Stop (Killed s') else Next s')
           \<and> tx s' = tx s @ [(fd, chunk, next_write_ok s)]"
proof -
  from assms(4) have "\<forall>c\<in>set chunk. c \<noteq> NUL" by auto
  then have t: "text_of chunk = chunk"
    by (simp only: text_of_def takeWhile_eq_all_conv)
  have "NUL \<in> set chunk \<or> length chunk < BUF_SIZE"
    using assms(3) by (simp add: BUF_SIZE_def)
  from conn_iter_plain [OF assms(1,2) this] assms(5,6) show ?thesis
    unfolding t using kills_not_ok [of s] by (cases "next_write_kills s") simp_all
qed

text \<open>A line of six bytes comes back as it was sent.\<close>

theorem echo_identity_witness:
  "sys_read 5 BUF_SIZE (hello_waiting\<lparr>buf := bzero BUF_SIZE\<rparr>)
     = Some (6, ''hello'' @ [NL], accepted_one\<lparr>buf := bzero BUF_SIZE\<rparr>)
   \<and> length (''hello'' @ [NL]) \<le> 15 \<and> NUL \<notin> set (''hello'' @ [NL])
   \<and> ''hello'' @ [NL] \<noteq> ''%date%'' \<and> ''hello'' @ [NL] \<noteq> ''%time%''
   \<and> (\<exists>s'. conn_iter 5 hello_waiting = Next s' \<and> tx s' = [(5, ''hello'' @ [NL], True)])"
proof -
  have a: "sys_read 5 BUF_SIZE (hello_waiting\<lparr>buf := bzero BUF_SIZE\<rparr>)
     = Some (6, ''hello'' @ [NL], accepted_one\<lparr>buf := bzero BUF_SIZE\<rparr>)"
    by (auto simp: sys_read_def hello_waiting_def accepted_one_def serving_def boot_def
        valid_fd_def BUF_SIZE_def NL_def fun_eq_iff)
  have b: "(0::int) < 6" "length (''hello'' @ [NL]) \<le> 15" "NUL \<notin> set (''hello'' @ [NL])"
    "''hello'' @ [NL] \<noteq> ''%date%''" "''hello'' @ [NL] \<noteq> ''%time%''"
    by (simp_all add: NUL_def NL_def)
  have c: "tx hello_waiting = []" "next_write_ok hello_waiting"
    "\<not> next_write_kills hello_waiting"
    by (simp_all add: hello_waiting_def accepted_one_def serving_def boot_def next_write_ok_def
        next_write_kills_def)
  from echo_identity [OF a b] a b(2-) show ?thesis by (simp add: c)
qed

text \<open>
  C2 as stated fails: the chunk \<^verbatim>\<open>hi\<close> followed by a terminator byte has three bytes, is
  not a reserved request, and two bytes are written back, because the length of the reply is
  \<^verbatim>\<open>strlen(buf)\<close> (line 240).
\<close>

theorem echo_identity_counterexample:
  "rx hi_waiting 5 = [''hi'' @ [NUL]]
   \<and> length (''hi'' @ [NUL]) \<le> 15
   \<and> ''hi'' @ [NUL] \<noteq> ''%date%'' \<and> ''hi'' @ [NUL] \<noteq> ''%time%''
   \<and> conn_iter 5 hi_waiting = Next hi_echoed
   \<and> tx hi_waiting = [] \<and> tx hi_echoed = [(5, ''hi'', True)]
   \<and> ''hi'' \<noteq> ''hi'' @ [NUL]"
  using conn_iter_hi
  by (simp add: hi_waiting_def hi_echoed_def accepted_one_def serving_def boot_def)

text \<open>
  C3. For every chunk that \<^verbatim>\<open>read\<close> can store in the cleared buffer (at most
  \<^verbatim>\<open>BUF_SIZE\<close> bytes), the Echo function replaces the buffer by the formatted local date when
  the text of the chunk is \<^verbatim>\<open>%date%\<close>, by the formatted local time when it is
  \<^verbatim>\<open>%time%\<close>, and leaves the buffer as it was read otherwise. The text of a chunk is what
  \<^verbatim>\<open>strcmp\<close> sees: its bytes before the first terminator. The formatted date and time are
  assumed to fit in the buffer, as they do in the C locale.
\<close>

theorem echo_substitution:
  assumes "length chunk \<le> BUF_SIZE"
    and "length (fmt_date s) < BUF_SIZE" and "length (fmt_time s) < BUF_SIZE"
  shows "echo_function (s\<lparr>buf := store chunk (bzero BUF_SIZE)\<rparr>) =
     Some (if text_of chunk = ''%date%''
             then store (lit (fmt_date s)) (store chunk (bzero BUF_SIZE))
           else if text_of chunk = ''%time%''
             then store (lit (fmt_time s)) (store chunk (bzero BUF_SIZE))
           else store chunk (bzero BUF_SIZE))"
proof -
  have "6 < length (buf (s\<lparr>buf := store chunk (bzero BUF_SIZE)\<rparr>))"
    using assms(1) by (simp add: length_store BUF_SIZE_def)
  from echo_function_text [OF this] assms show ?thesis
    by (simp add: text_of_store strftime_def)
qed

text \<open>The request \<^verbatim>\<open>%date%\<close> as the client sends it, with its terminator.\<close>

theorem echo_substitution_witness:
  "length (''%date%'' @ [NUL]) \<le> BUF_SIZE
   \<and> length (fmt_date accepted_one) < BUF_SIZE \<and> length (fmt_time accepted_one) < BUF_SIZE
   \<and> text_of (''%date%'' @ [NUL]) = ''%date%''
   \<and> echo_function (accepted_one\<lparr>buf := store (''%date%'' @ [NUL]) (bzero BUF_SIZE)\<rparr>)
       = Some (''10/30/26'' @ NUL # replicate 7 NUL)"
proof -
  have a: "length (''%date%'' @ [NUL]) \<le> BUF_SIZE" by (simp add: BUF_SIZE_def)
  have b: "length (fmt_date accepted_one) < BUF_SIZE"
    by (simp add: accepted_one_def serving_def boot_def BUF_SIZE_def)
  have c: "length (fmt_time accepted_one) < BUF_SIZE"
    by (simp add: accepted_one_def serving_def boot_def BUF_SIZE_def)
  have t: "text_of (''%date%'' @ [NUL]) = ''%date%''" by (simp add: text_of_def NUL_def)
  have d: "store (lit (fmt_date accepted_one)) (store (''%date%'' @ [NUL]) (bzero BUF_SIZE))
      = ''10/30/26'' @ NUL # replicate 7 NUL"
    by (simp add: accepted_one_def serving_def boot_def store_def lit_def bzero_def BUF_SIZE_def)
  from echo_substitution [OF a b c] a b c t d show ?thesis by simp
qed

text \<open>
  C4 (as amended). When \<^verbatim>\<open>read\<close> on standard input returns a chunk whose text (its bytes
  before the first terminator) is the line \<^verbatim>\<open>exit\<close> with its newline, the listening socket
  and the epoll instance are closed and the process exits with \<^verbatim>\<open>EXIT_SUCCESS\<close>. Any other
  chunk that is shorter than the buffer or holds a terminator is printed, and the loop goes
  on from a state that differs from the one before only in the input consumed, the buffer
  and the line printed.
\<close>

theorem stdin_command:
  assumes "sys_read STDIN_FILENO BUF_SIZE (s\<lparr>buf := bzero BUF_SIZE\<rparr>) = Some (n, chunk, s1)"
    and "0 < n"
    and "NUL \<in> set chunk \<or> length chunk < BUF_SIZE"
  shows "stdin_loop s =
     (if text_of chunk = ''exit'' @ [NL]
      then Exit EXIT_SUCCESS
             (sys_close (epfd s) (sys_close (listen_sock s)
                (s\<lparr>rx := rx s1, buf := store chunk (bzero BUF_SIZE)\<rparr>)))
      else stdin_loop (s\<lparr>rx := rx s1, buf := store chunk (bzero BUF_SIZE),
                         out := out s @ [StdinLine n (text_of chunk)]\<rparr>))
    \<and> listen_sock s \<notin> set (fds (sys_close (epfd s) (sys_close (listen_sock s) t)))
    \<and> epfd s \<notin> set (fds (sys_close (epfd s) (sys_close (listen_sock s) t)))"
  using stdin_iter_read [OF assms(1,2)] assms(3)
  by (simp add: stdin_loop.simps [of s] sys_close_def)

text \<open>The line \<^verbatim>\<open>exit\<close> ends the process; only the standard descriptors are left.\<close>

theorem stdin_command_witness:
  "sys_read STDIN_FILENO BUF_SIZE (exit_waiting\<lparr>buf := bzero BUF_SIZE\<rparr>)
     = Some (5, ''exit'' @ [NL], serving\<lparr>buf := bzero BUF_SIZE\<rparr>)
   \<and> text_of (''exit'' @ [NL]) = ''exit'' @ [NL]
   \<and> stdin_loop exit_waiting = Exit EXIT_SUCCESS (exited (''exit'' @ NL # replicate 11 NUL))
   \<and> fds (exited (''exit'' @ NL # replicate 11 NUL)) = [0, 1, 2]"
proof -
  have t: "text_of (''exit'' @ [NL]) = ''exit'' @ [NL]" by (simp add: text_of_def NUL_def NL_def)
  have d: "NUL \<in> set (''exit'' @ [NL]) \<or> length (''exit'' @ [NL]) < BUF_SIZE"
    by (simp add: BUF_SIZE_def)
  have b: "store (''exit'' @ [NL]) (bzero BUF_SIZE) = ''exit'' @ NL # replicate 11 NUL"
    by (simp add: store_def bzero_def BUF_SIZE_def)
  from stdin_command [OF read_exit _ d]
  have "stdin_loop exit_waiting = Exit EXIT_SUCCESS (exited (''exit'' @ NL # replicate 11 NUL))"
    unfolding t b by (simp add: closed_down)
  with read_exit t show ?thesis by (simp add: exited_def)
qed

text \<open>
  C4 as stated fails: the seven bytes \<^verbatim>\<open>exit\<close>, newline, terminator, \<^verbatim>\<open>x\<close> are not the line
  \<^verbatim>\<open>exit\<close>, yet \<^verbatim>\<open>strcmp\<close> stops at the terminator and the process exits, with nothing
  printed.
\<close>

theorem stdin_command_counterexample:
  "rx exit_junk 0 = [''exit'' @ [NL, NUL, CHR ''x'']]
   \<and> ''exit'' @ [NL, NUL, CHR ''x''] \<noteq> ''exit'' @ [NL]
   \<and> handle_event stdin_ev exit_junk
       = Exit EXIT_SUCCESS (exited (''exit'' @ [NL, NUL, CHR ''x''] @ replicate 9 NUL))
   \<and> out (exited (''exit'' @ [NL, NUL, CHR ''x''] @ replicate 9 NUL)) = out exit_junk"
proof -
  have t: "text_of (''exit'' @ [NL, NUL, CHR ''x'']) = ''exit'' @ [NL]"
    by (simp add: text_of_def NUL_def NL_def)
  have b: "store (''exit'' @ [NL, NUL, CHR ''x'']) (bzero BUF_SIZE)
      = ''exit'' @ [NL, NUL, CHR ''x''] @ replicate 9 NUL"
    by (simp add: store_def bzero_def BUF_SIZE_def)
  from stdin_iter_read [OF read_exit_junk]
  have "stdin_loop exit_junk
      = Exit EXIT_SUCCESS (exited (''exit'' @ [NL, NUL, CHR ''x''] @ replicate 9 NUL))"
    unfolding t b by (simp add: stdin_loop.simps [of exit_junk] closed_down)
  then have "handle_event stdin_ev exit_junk
      = Exit EXIT_SUCCESS (exited (''exit'' @ [NL, NUL, CHR ''x''] @ replicate 9 NUL))"
    by (simp add: handle_event_def branch_def stdin_ev_def exit_junk_def serving_def boot_def
        STDIN_FILENO_def)
  then show ?thesis
    by (simp add: exit_junk_def exited_def)
qed

text \<open>
  C5. When an event carries the peer-closed or the hang-up bit and the branch that handled
  it returns, the descriptor of the event is neither in the interest list nor open
  afterwards, whichever branch it was.
\<close>

theorem closing_event_torn_down:
  assumes "closing ev" and "handle_event ev s = Running s'"
  shows "interest s' (data_fd ev) = None \<and> data_fd ev \<notin> set (fds s')"
  using assms
  by (auto simp: handle_event_def teardown_def Let_def sys_close_def split: outcome.splits)

text \<open>An event with only the hang-up bit goes through the unexpected branch.\<close>

theorem closing_event_torn_down_witness:
  "closing hangup_ev \<and> handle_event hangup_ev accepted_one = Running hung_up
   \<and> interest hung_up (data_fd hangup_ev) = None \<and> data_fd hangup_ev \<notin> set (fds hung_up)"
proof -
  have a: "closing hangup_ev"
    by (simp add: closing_def hangup_ev_def EPOLLHUP_def EPOLLRDHUP_def)
  from closing_event_torn_down [OF a handle_hangup] a handle_hangup
  show ?thesis by simp
qed




text \<open>
  C7 (as amended). When start-up succeeds, the listening socket is in the interest list with
  exactly the bits readable, writable and edge-triggered
  (\<^verbatim>\<open>EPOLLIN | EPOLLOUT | EPOLLET\<close>, line 168).
\<close>

theorem listen_registration:
  assumes "server_start s = Running s'"
  shows "interest s' (listen_sock s') = Some (EPOLLIN OR EPOLLOUT OR EPOLLET)"
  using assms
  by (auto simp: server_start_def sys_socket_def sys_bind_def setnonblocking_def
      sys_fcntl_nonblock_def sys_listen_def sys_epoll_create_def epoll_ctl_add_def
      sys_epoll_ctl_add_def Let_def logs_def
      split: if_splits prod.splits outcome.splits)

theorem listen_registration_witness:
  "server_start boot = Running serving
   \<and> interest serving (listen_sock serving) = Some (EPOLLIN OR EPOLLOUT OR EPOLLET)"
  using server_start_boot listen_registration [OF server_start_boot] by (rule conjI)

text \<open>
  C7 as stated fails: after the start-up of \<^term>\<open>boot\<close> the interest of the listening socket is
  not \<^verbatim>\<open>EPOLLIN | EPOLLET\<close>, because \<^verbatim>\<open>EPOLLOUT\<close> is registered as well.
\<close>

theorem listen_registration_counterexample:
  "server_start boot = Running serving
   \<and> interest serving (listen_sock serving) \<noteq> Some (EPOLLIN OR EPOLLET)"
proof -
  have "interest serving (listen_sock serving) \<noteq> Some (EPOLLIN OR EPOLLET)"
    by (simp add: serving_def boot_def EPOLLIN_def EPOLLOUT_def EPOLLET_def)
  with server_start_boot show ?thesis by (rule conjI)
qed

text \<open>
  C8 (as amended). For a line of at most 254 bytes without terminator byte, entered with its
  newline: when the line is \<^verbatim>\<open>exit\<close> nothing is sent, the loop is left and
  \<^verbatim>\<open>client_run\<close> returns with the socket closed; otherwise the client calls \<^verbatim>\<open>write\<close> once,
  with the bytes of the line followed by one terminator byte in place of the newline.
\<close>

theorem client_sends_line:
  assumes "c_input s = l @ NL # rest"
    and "NL \<notin> set l" and "NUL \<notin> set l" and "length l \<le> 254"
    and "length (c_buf s) = MAX_LINE"
  shows "if l = ''exit''
         then \<exists>s'. client_send s = Quit s' \<and> c_sent s' = c_sent s
                \<and> client_loop s = Returned (s'\<lparr>c_open := False\<rparr>)
         else \<exists>s'. client_send s = Sent (int (length l)) s'
                \<and> c_sent s' = c_sent s @ [l @ [NUL]]"
  using client_send_line [OF assms]
  by (simp add: client_loop.simps [of s] client_iter_def)

text \<open>The user types \<^verbatim>\<open>exit\<close>: nothing is sent and the client returns.\<close>

theorem client_sends_line_witness:
  "c_input typing_exit = ''exit'' @ NL # [] \<and> NL \<notin> set ''exit'' \<and> NUL \<notin> set ''exit''
   \<and> length ''exit'' \<le> 254 \<and> length (c_buf typing_exit) = MAX_LINE
   \<and> client_send typing_exit = Quit (exit_typed\<lparr>c_open := True\<rparr>)
   \<and> c_sent typing_exit = [] \<and> c_sent exit_typed = []
   \<and> client_loop typing_exit = Returned exit_typed"
proof -
  from client_sends_line [OF typed_exit] client_send_exit
  have "client_loop typing_exit = Returned exit_typed"
    by (simp add: exit_typed_def)
  moreover have "c_sent typing_exit = []" "c_sent exit_typed = []"
    by (simp_all add: typing_exit_def exit_typed_def typing_hi_def)
  ultimately show ?thesis using typed_exit client_send_exit by simp
qed

text \<open>
  C8 as stated fails: for the line \<^verbatim>\<open>hi\<close> the client sends three bytes, \<^verbatim>\<open>hi\<close> and a
  terminator (\<^verbatim>\<open>write(sockfd, buf, c + 1)\<close>, line 295), not the two bytes of the line.
\<close>

theorem client_sends_line_counterexample:
  "c_input typing_hi = ''hi'' @ [NL] \<and> c_sent typing_hi = []
   \<and> client_send typing_hi = Sent 2 hi_sent
   \<and> c_sent hi_sent = [''hi'' @ [NUL]]
   \<and> ''hi'' @ [NUL] \<noteq> ''hi''"
  using client_send_hi by (simp add: typing_hi_def hi_sent_def)

text \<open>
  C9. Both loops clear the buffer before each \<^verbatim>\<open>read\<close> (lines 201 and 220), so a pass, and
  with it the whole loop, does not depend on what the buffer held before: whatever an earlier
  chunk, or the address printed for a new connection, left there has no influence on what
  is compared, written or printed for the next chunk.
\<close>

theorem buffer_cleared_before_read:
  "stdin_iter (s\<lparr>buf := b\<rparr>) = stdin_iter s
   \<and> conn_iter fd (s\<lparr>buf := b\<rparr>) = conn_iter fd s
   \<and> stdin_loop (s\<lparr>buf := b\<rparr>) = stdin_loop s
   \<and> conn_loop fd (s\<lparr>buf := b\<rparr>) = conn_loop fd s"
proof -
  have a: "stdin_iter (s\<lparr>buf := b\<rparr>) = stdin_iter s"
    by (simp add: stdin_iter_def)
  have c: "conn_iter fd (s\<lparr>buf := b\<rparr>) = conn_iter fd s"
    by (simp add: conn_iter_def)
  have "stdin_loop (s\<lparr>buf := b\<rparr>) = stdin_loop s"
    by (simp add: stdin_loop.simps [of "s\<lparr>buf := b\<rparr>"] stdin_loop.simps [of s] a)
  moreover have "conn_loop fd (s\<lparr>buf := b\<rparr>) = conn_loop fd s"
    by (simp add: conn_loop.simps [of fd "s\<lparr>buf := b\<rparr>"] conn_loop.simps [of fd s] c)
  ultimately show ?thesis using a c by simp
qed

text \<open>With sixteen foreign bytes in the buffer, \<^verbatim>\<open>hi\<close> is echoed as before.\<close>

theorem buffer_cleared_before_read_witness:
  "conn_iter 5 (hi_waiting\<lparr>buf := ''0123456789abcdef''\<rparr>) = Next hi_echoed
   \<and> buf hi_echoed = ''hi'' @ replicate 14 NUL"
proof -
  have "buf hi_echoed = ''hi'' @ replicate 14 NUL"
    by (simp add: hi_echoed_def replicate_Suc [symmetric] del: replicate_Suc replicate.simps)
  with buffer_cleared_before_read [where s = hi_waiting and b = "''0123456789abcdef''" and fd = 5] conn_iter_hi
  show ?thesis by simp
qed

text \<open>
  C10. When \<^verbatim>\<open>accept\<close> fails on an event for the listening socket (a spurious event with
  nothing waiting on the non-blocking socket included), the result is not checked:
  \<^verbatim>\<open>setnonblocking(-1)\<close> fails and is ignored, the registration of -1 fails, and
  \<^verbatim>\<open>epoll_ctl_add\<close> ends the process with \<^verbatim>\<open>EXIT_FAILURE\<close>, after a line that reports a
  connection with whatever \<^verbatim>\<open>cli_addr\<close> held.
\<close>

theorem accept_failure_is_fatal:
  assumes "data_fd ev = listen_sock s"
    and "sys_accept (listen_sock s) s = Some (- 1, s1)"
  shows "setnonblocking (- 1) s = (- 1, s)
    \<and> sys_epoll_ctl_add (epfd s) (- 1) (EPOLLIN OR EPOLLET OR EPOLLRDHUP OR EPOLLHUP) s = (- 1, s)
    \<and> handle_event ev s =
        Exit EXIT_FAILURE
          (logs (Perror ''epoll_ctl()'')
            (logs (Connected (dotted (sin_addr (cli_addr s))) (sin_port (cli_addr s)))
              (s\<lparr>buf := inet_ntop (sin_addr (cli_addr s)) (buf s) 16\<rparr>)))"
proof -
  from assms(2) have s1: "s1 = s" by (rule sys_accept_failed)
  have "handle_listen s =
        Exit EXIT_FAILURE
          (logs (Perror ''epoll_ctl()'')
            (logs (Connected (dotted (sin_addr (cli_addr s))) (sin_port (cli_addr s)))
              (s\<lparr>buf := inet_ntop (sin_addr (cli_addr s)) (buf s) 16\<rparr>)))"
    using assms(2) unfolding s1
    by (simp add: handle_listen_def Let_def c_str_inet_ntop setnonblocking_bad
        epoll_ctl_add_def sys_epoll_ctl_add_bad logs_def)
  with assms(1) show ?thesis
    by (simp add: handle_event_def branch_def setnonblocking_bad sys_epoll_ctl_add_bad)
qed

text \<open>On \<^term>\<open>serving\<close> nothing waits, and the event ends the process.\<close>

theorem accept_failure_is_fatal_witness:
  "data_fd listen_ev = listen_sock serving
   \<and> sys_accept (listen_sock serving) serving = Some (- 1, serving)
   \<and> handle_event listen_ev serving =
        Exit EXIT_FAILURE
          (serving\<lparr>buf := ''0.0.0.0'' @ NUL # replicate 8 NUL,
             out := [Connected ''0.0.0.0'' 0, Perror ''epoll_ctl()'']\<rparr>)"
proof -
  have a: "data_fd listen_ev = listen_sock serving"
    by (simp add: listen_ev_def serving_def)
  have b: "sys_accept (listen_sock serving) serving = Some (- 1, serving)"
    by (simp add: sys_accept_def serving_def boot_def valid_fd_def)
  have c: "logs (Perror ''epoll_ctl()'')
            (logs (Connected (dotted (sin_addr (cli_addr serving))) (sin_port (cli_addr serving)))
              (serving\<lparr>buf := inet_ntop (sin_addr (cli_addr serving)) (buf serving) 16\<rparr>))
       = serving\<lparr>buf := ''0.0.0.0'' @ NUL # replicate 8 NUL,
             out := [Connected ''0.0.0.0'' 0, Perror ''epoll_ctl()'']\<rparr>"
    by (simp add: logs_def serving_def boot_def inet_ntop_def dotted_zero store_def lit_def
        bzero_def BUF_SIZE_def del: dotted.simps)
  from accept_failure_is_fatal [OF a b] have
    "handle_event listen_ev serving =
        Exit EXIT_FAILURE
          (logs (Perror ''epoll_ctl()'')
            (logs (Connected (dotted (sin_addr (cli_addr serving))) (sin_port (cli_addr serving)))
              (serving\<lparr>buf := inet_ntop (sin_addr (cli_addr serving)) (buf serving) 16\<rparr>)))"
    by blast
  with a b show ?thesis unfolding c by blast
qed

end
